theory Spec2Isabelle
  imports Complex_Main "HOL-Library.Word"
begin

section \<open>TAMV: the calibration engine of \<^verbatim>\<open>TAMV_GUI.py\<close>\<close>

text \<open>
  The development embeds the class \<^verbatim>\<open>CalibrateNozzles\<close> of \<^verbatim>\<open>src/TAMV_GUI.py\<close>:
  the detector presets and \<^verbatim>\<open>createDetector\<close>, the frame loop \<^verbatim>\<open>analyzeFrame\<close>, the
  per-tool loop \<^verbatim>\<open>calibrateTool\<close> with \<^verbatim>\<open>normalize_coords\<close> and
  \<^verbatim>\<open>least_square_mapping\<close>, the tool loop of \<^verbatim>\<open>run\<close>, and the JSON export of
  \<^verbatim>\<open>App.analyzeResults\<close>.

  Conventions.
  \<^item> Python floats are idealised as rationals (\<^typ>\<open>rat\<close>): every number the code
    handles is a decimal literal, a pixel count or a quotient of those. The code's
    doubles carry a representation error that the rationals do not have; it decides
    the last digit of a rounded value where the exact value is a decimal tie (for the
    example transform below, the offset at pixel \<open>(416, 240)\<close> is \<open>-0.0825\<close> exactly, which
    the model rounds to \<open>-0.082\<close> and the code to \<open>-0.083\<close>). The theorems below use
    rounded values only where the exact value is no tie.
  \<^item> What the code receives from outside (camera frames and the blobs found in them,
    the printer's answers, the clock, the flags the GUI thread flips) is an input of
    the model, given as a list that the loop consumes; a loop that has consumed all
    of its input without leaving is still polling, which is the result \<open>Polling\<close>.
  \<^item> Every call the code makes on \<^verbatim>\<open>self.parent().printer\<close> is appended to
    \<open>printer_log\<close>, every Qt signal it emits to a list of signals.
  \<^item> Logging calls, \<^verbatim>\<open>app.processEvents()\<close>, the debug string, the wall-clock
    durations that are only reported, and the drawing on the displayed frame are left out.
\<close>

subsection \<open>Numbers\<close>

text \<open>
  \<^verbatim>\<open>np.around(x, d)\<close>: scale by \<open>10 ^ d\<close>, round half to even, scale back; on exact
  rationals, so a tie here is a tie of the exact value.
\<close>

definition rint :: "rat \<Rightarrow> int" where
  "rint x = (let f = \<lfloor>x\<rfloor>; d = x - of_int f in
     if d < 1 / 2 then f
     else if 1 / 2 < d then f + 1
     else if even f then f else f + 1)"

definition around :: "rat \<Rightarrow> nat \<Rightarrow> rat" where
  "around x d = of_int (rint (x * 10 ^ d)) / 10 ^ d"

subsection \<open>Detector presets and \<^verbatim>\<open>createDetector\<close>\<close>

text \<open>The \<^verbatim>\<open>self.detect_*\<close> attributes, which the two presets assign.\<close>

record detect_attrs =
  detect_th1 :: rat
  detect_th2 :: rat
  detect_thstep :: rat
  detect_filterByArea :: bool
  detect_minArea :: rat
  detect_maxArea :: rat
  detect_filterByCircularity :: bool
  detect_minCircularity :: rat
  detect_maxCircularity :: rat
  detect_filterByConvexity :: bool
  detect_minConvexity :: rat
  detect_maxConvexity :: rat
  detect_filterByInertia :: bool
  detect_minInertiaRatio :: rat

definition detectParamsStandard :: detect_attrs where
  "detectParamsStandard =
     \<lparr> detect_th1 = 1, detect_th2 = 50, detect_thstep = 1,
       detect_filterByArea = True, detect_minArea = 400, detect_maxArea = 900,
       detect_filterByCircularity = True, detect_minCircularity = 8 / 10,
       detect_maxCircularity = 1,
       detect_filterByConvexity = True, detect_minConvexity = 3 / 10,
       detect_maxConvexity = 1,
       detect_filterByInertia = True, detect_minInertiaRatio = 3 / 10 \<rparr>"

definition detectParamsLoose :: detect_attrs where
  "detectParamsLoose =
     \<lparr> detect_th1 = 1, detect_th2 = 50, detect_thstep = 1,
       detect_filterByArea = True, detect_minArea = 600, detect_maxArea = 15000,
       detect_filterByCircularity = True, detect_minCircularity = 6 / 10,
       detect_maxCircularity = 1,
       detect_filterByConvexity = True, detect_minConvexity = 1 / 10,
       detect_maxConvexity = 1,
       detect_filterByInertia = True, detect_minInertiaRatio = 3 / 10 \<rparr>"

text \<open>
  The fields of \<^verbatim>\<open>cv2.SimpleBlobDetector_Params\<close> that \<^verbatim>\<open>createDetector\<close> assigns
  (it assigns each of them, so the library's defaults play no part).
\<close>

record blob_params =
  minThreshold :: rat
  maxThreshold :: rat
  thresholdStep :: rat
  filterByArea :: bool
  minArea :: rat
  maxArea :: rat
  filterByCircularity :: bool
  minCircularity :: rat
  maxCircularity :: rat
  filterByConvexity :: bool
  minConvexity :: rat
  maxConvexity :: rat
  filterByInertia :: bool
  minInertiaRatio :: rat

text \<open>The part of the thread object that the preset switch and the rebuild touch.\<close>

record detector_state =
  attrs :: detect_attrs
  loose :: bool
  detector_changed :: bool
  detector :: "blob_params option"

text \<open>\<^verbatim>\<open>__init__\<close>: the standard preset, no detector yet (\<^verbatim>\<open>run\<close> builds the first).\<close>

definition init_detector_state :: detector_state where
  "init_detector_state =
     \<lparr> attrs = detectParamsStandard, loose = False, detector_changed = False,
       detector = None \<rparr>"

definition toggleLoose :: "detector_state \<Rightarrow> detector_state" where
  "toggleLoose s =
     (let s1 = s\<lparr>detector_changed := True\<rparr> in
      if loose s1 then s1\<lparr>attrs := detectParamsStandard, loose := False\<rparr>
      else s1\<lparr>attrs := detectParamsLoose, loose := True\<rparr>)"

text \<open>
  \<^verbatim>\<open>createDetector\<close> reads the thresholds, the area bounds and the lower circularity
  bound from the attributes; the upper circularity bound, both convexity bounds and
  the inertia ratio are literals in its body.
\<close>

definition createDetector :: "detector_state \<Rightarrow> detector_state" where
  "createDetector s =
     s\<lparr>detector := Some
        \<lparr> minThreshold = detect_th1 (attrs s),
          maxThreshold = detect_th2 (attrs s),
          thresholdStep = detect_thstep (attrs s),
          filterByArea = True,
          minArea = detect_minArea (attrs s),
          maxArea = detect_maxArea (attrs s),
          filterByCircularity = True,
          minCircularity = detect_minCircularity (attrs s),
          maxCircularity = 1,
          filterByConvexity = True,
          minConvexity = 3 / 10,
          maxConvexity = 1,
          filterByInertia = True,
          minInertiaRatio = 3 / 10 \<rparr>\<rparr>"

text \<open>The rebuild the loops perform: \<^verbatim>\<open>if self.detector_changed: ...\<close>.\<close>

definition rebuild_if_changed :: "detector_state \<Rightarrow> detector_state" where
  "rebuild_if_changed s =
     (if detector_changed s then (createDetector s)\<lparr>detector_changed := False\<rparr> else s)"

subsection \<open>Coordinates, the transform and the printer's calls\<close>

text \<open>
  A pixel position is a pair of integers: \<^verbatim>\<open>analyzeFrame\<close> yields \<^verbatim>\<open>np.uint16\<close> values,
  \<^verbatim>\<open>analyzeEndstop\<close> Python integers. The printer's coordinates are the dictionary with
  keys X, Y and Z.
\<close>

type_synonym pixel = "int \<times> int"

record coords =
  cX :: rat
  cY :: rat
  cZ :: rat

text \<open>
  The solution of \<^verbatim>\<open>np.linalg.lstsq\<close> for a feature matrix of six columns and a
  right-hand side of two: six rows of two numbers.
\<close>

datatype transform =
  Transform "rat \<times> rat" "rat \<times> rat" "rat \<times> rat" "rat \<times> rat" "rat \<times> rat" "rat \<times> rat"

fun rows :: "transform \<Rightarrow> (rat \<times> rat) list" where
  "rows (Transform a b c d e f) = [a, b, c, d, e, f]"

text \<open>\<^verbatim>\<open>len(self.transform_matrix)\<close>: the attribute is \<^verbatim>\<open>[]\<close> until the first fit.\<close>

definition len_transform :: "transform option \<Rightarrow> nat" where
  "len_transform m = (case m of None \<Rightarrow> 0 | Some T \<Rightarrow> length (rows T))"

text \<open>\<^verbatim>\<open>c * M\<close> on the rows of a matrix, and \<^verbatim>\<open>M.T @ v\<close>.\<close>

definition scale_rows :: "rat \<Rightarrow> (rat \<times> rat) list \<Rightarrow> (rat \<times> rat) list" where
  "scale_rows c M = map (\<lambda>(a, b). (c * a, c * b)) M"

definition transpose_matmul :: "(rat \<times> rat) list \<Rightarrow> rat list \<Rightarrow> rat \<times> rat" where
  "transpose_matmul M v =
     (sum_list (map2 (\<lambda>r x. fst r * x) M v), sum_list (map2 (\<lambda>r x. snd r * x) M v))"

datatype pyerr =
  TypeError | ValueError | IndexError | UnboundLocalError | AttributeError

datatype command =
    MoveRelative nat rat rat
  | MoveAbsolute nat "rat option" "rat option" "rat option"
  | LimitAxes
  | GetToolOffset int
  | LoadTool int
  | UnloadTools
  | GetStatus string
  | GetJSON
  | SetToolOffsets int rat rat

datatype ctool = Tool int | Endstop

text \<open>
  \<^verbatim>\<open>str(ctool) in "endstop"\<close>: true of the string the auto-capture passes; the digits
  (and sign) of a tool number are no substring of it.
\<close>

fun in_endstop :: "ctool \<Rightarrow> bool" where
  "in_endstop Endstop = True"
| "in_endstop (Tool n) = False"

type_synonym sample = "(rat \<times> rat) \<times> (rat \<times> rat)"

text \<open>
  What one call of \<^verbatim>\<open>calibrateTool\<close> reads from outside the thread object: the
  module's \<^verbatim>\<open>camera_width\<close> and \<^verbatim>\<open>camera_height\<close>, the parent's control point, the
  printer's answer to \<^verbatim>\<open>getToolOffset\<close>, and numpy's least-squares solver (solution and
  residuals).
\<close>

record world =
  camera_width :: int
  camera_height :: int
  cp_coords :: coords
  tool_offset :: "int \<Rightarrow> coords"
  lstsq :: "rat list list \<Rightarrow> (rat \<times> rat) list \<Rightarrow> transform \<times> rat list"

text \<open>The dictionary the \<^verbatim>\<open>result_update\<close> signal carries.\<close>

record result_update =
  r_tool :: int
  r_cycle :: nat
  r_mpp :: "pixel \<times> pixel"
  r_X :: rat
  r_Y :: rat

text \<open>
  The attributes of the thread object that \<^verbatim>\<open>calibrateTool\<close> uses. The first four
  outlive a call; the others are assigned afresh at the start of each call.
  \<open>mpp\<close> holds the two pixel positions from which the code computes
  \<^verbatim>\<open>np.around(0.5 / getDistance(...), 4)\<close>; \<open>None\<close> is an attribute not yet assigned.
\<close>

record calib =
  transform_matrix :: "transform option"
  transform_residual :: "rat list"
  transform_input :: "sample list"
  mpp :: "(pixel \<times> pixel) option"
  average_location :: "rat \<times> rat"
  guess_position :: "rat \<times> rat"
  xy :: pixel
  oldxy :: pixel
  tool_coordinates :: "coords option"
  state :: nat
  detect_count :: nat
  space_coordinates :: "(rat \<times> rat) list"
  camera_coordinates :: "pixel list"
  calibration_moves :: nat
  offsetX :: rat
  offsetY :: rat
  offsets :: "rat \<times> rat"
  printer_log :: "command list"
  emitted :: "result_update list"

text \<open>\<^verbatim>\<open>__init__\<close>: \<^verbatim>\<open>self.transform_matrix = []\<close>; nothing sent, nothing emitted.\<close>

definition init_calib :: calib where
  "init_calib =
     \<lparr> transform_matrix = None, transform_residual = [], transform_input = [],
       mpp = None, average_location = (0, 0), guess_position = (1, 1), xy = (0, 0),
       oldxy = (0, 0), tool_coordinates = None, state = 0, detect_count = 0,
       space_coordinates = [], camera_coordinates = [], calibration_moves = 0,
       offsetX = 0, offsetY = 0, offsets = (0, 0), printer_log = [], emitted = [] \<rparr>"

definition position_iterations :: nat where
  "position_iterations = 5"

definition calibrationCoordinates :: "(rat \<times> rat) list" where
  "calibrationCoordinates =
     [(0, - (5 / 10)), (294 / 1000, - (405 / 1000)), (476 / 1000, - (155 / 1000)),
      (476 / 1000, 155 / 1000), (294 / 1000, 405 / 1000), (0, 5 / 10),
      (- (294 / 1000), 405 / 1000), (- (476 / 1000), 155 / 1000),
      (- (476 / 1000), - (155 / 1000)), (- (294 / 1000), - (405 / 1000))]"

subsection \<open>\<^verbatim>\<open>normalize_coords\<close> and \<^verbatim>\<open>least_square_mapping\<close>\<close>

definition normalize_coords :: "world \<Rightarrow> pixel \<Rightarrow> rat \<times> rat" where
  "normalize_coords W p =
     (of_int (fst p) / of_int (camera_width W) - 1 / 2,
      of_int (snd p) / of_int (camera_height W) - 1 / 2)"

text \<open>The rows of \<^verbatim>\<open>A = np.vstack([x**2, y**2, x*y, x, y, np.ones(n)]).T\<close>.\<close>

definition feature_row :: "rat \<times> rat \<Rightarrow> rat list" where
  "feature_row p = (let x = fst p; y = snd p in [x * x, y * y, x * y, x, y, 1])"

definition least_square_mapping :: "world \<Rightarrow> sample list \<Rightarrow> transform \<times> rat list" where
  "least_square_mapping W calibration_points =
     (let real_coords = map fst calibration_points;
          pixel_coords = map snd calibration_points
      in lstsq W (map feature_row pixel_coords) real_coords)"

subsection \<open>\<^verbatim>\<open>calibrateTool\<close>\<close>

text \<open>
  One result of \<^verbatim>\<open>analyzeFrame()\<close> or \<^verbatim>\<open>analyzeEndstop()\<close> as \<^verbatim>\<open>calibrateTool\<close> unpacks
  it: the pixel position and the machine coordinates captured with the frame (for
  \<^verbatim>\<open>analyzeFrame\<close>, \<open>None\<close> when \<^verbatim>\<open>getCoordinates\<close> raised). The target and the radius of
  \<^verbatim>\<open>analyzeFrame\<close>'s tuple are stored and never read, and are left out. The outer
  \<open>None\<close> is Python's \<^verbatim>\<open>None\<close>, whose unpacking raises \<^verbatim>\<open>TypeError\<close>.
\<close>

type_synonym analysis = "(pixel \<times> coords option) option"

datatype 'a outcome = Returned 'a | Raised pyerr | Polling

text \<open>The dictionary \<^verbatim>\<open>_return\<close> (without its duration).\<close>

record tool_return =
  ret_X :: rat
  ret_Y :: rat
  ret_MPP :: "pixel \<times> pixel"

type_synonym calib_return = "(tool_return \<times> transform \<times> (pixel \<times> pixel)) option"

datatype step = Continue calib | Finish calib_return calib | Fail pyerr calib

text \<open>The assignments before the loop.\<close>

definition calibrateTool_init :: "calib \<Rightarrow> calib" where
  "calibrateTool_init s =
     s\<lparr> average_location := (0, 0), guess_position := (1, 1), xy := (0, 0),
        oldxy := (0, 0),
        state := (if 1 < len_transform (transform_matrix s) then 200 else 0),
        detect_count := 0, space_coordinates := [], camera_coordinates := [],
        calibration_moves := 0 \<rparr>"

definition unpack :: "analysis \<Rightarrow> calib \<Rightarrow> pyerr + calib" where
  "unpack a s =
     (case a of
        None \<Rightarrow> Inl TypeError
      | Some (p, tc) \<Rightarrow> Inr (s\<lparr>xy := p, tool_coordinates := tc\<rparr>))"

text \<open>Lines 1490 to 1493: add the position to the running sum, count the detection.\<close>

definition accumulate :: "calib \<Rightarrow> calib" where
  "accumulate s =
     s\<lparr> average_location :=
          (fst (average_location s) + of_int (fst (xy s)),
           snd (average_location s) + of_int (snd (xy s))),
        detect_count := detect_count s + 1 \<rparr>"

text \<open>Lines 1498 to 1501: divide the sum by the count and round to three places.\<close>

definition average :: "calib \<Rightarrow> calib" where
  "average s =
     s\<lparr> average_location :=
          (around (fst (average_location s) / of_nat (detect_count s)) 3,
           around (snd (average_location s) / of_nat (detect_count s)) 3) \<rparr>"

text \<open>
  Saving a sample: \<^verbatim>\<open>self.tool_coordinates['X']\<close> raises \<^verbatim>\<open>TypeError\<close> when the
  coordinates are \<^verbatim>\<open>None\<close>.
\<close>

definition save_sample :: "calib \<Rightarrow> pyerr + calib" where
  "save_sample s =
     (case tool_coordinates s of
        None \<Rightarrow> Inl TypeError
      | Some tc \<Rightarrow>
          Inr (s\<lparr> space_coordinates := space_coordinates s @ [(cX tc, cY tc)],
                  camera_coordinates := camera_coordinates s @ [xy s] \<rparr>))"

definition send :: "command \<Rightarrow> calib \<Rightarrow> calib" where
  "send c s = s\<lparr>printer_log := printer_log s @ [c]\<rparr>"

text \<open>State 0 (lines 1509 to 1532).\<close>

definition cam_calib_init :: "calib \<Rightarrow> step" where
  "cam_calib_init s =
     (let s1 = s\<lparr>oldxy := xy s, space_coordinates := [], camera_coordinates := []\<rparr> in
      case save_sample s1 of
        Inl e \<Rightarrow> Fail e s1
      | Inr s2 \<Rightarrow>
          let s3 = s2\<lparr> offsetX := fst (calibrationCoordinates ! 0),
                       offsetY := snd (calibrationCoordinates ! 0) \<rparr>;
              s4 = send (MoveRelative 3000 (offsetX s3) (offsetY s3)) s3
          in Continue (s4\<lparr>state := 1\<rparr>))"

text \<open>
  States 1 to 9 (lines 1534 to 1562); the caller has checked
  \<open>state s < length calibrationCoordinates\<close>, so the index is in range.
\<close>

definition cam_calib_step :: "calib \<Rightarrow> step" where
  "cam_calib_step s =
     (let s1 = (if state s = 1 then s\<lparr>mpp := Some (oldxy s, xy s)\<rparr> else s);
          s2 = s1\<lparr>oldxy := xy s1\<rparr>
      in case save_sample s2 of
        Inl e \<Rightarrow> Fail e s2
      | Inr s3 \<Rightarrow>
          let s4 = s3\<lparr>offsetX := - 1 * offsetX s3, offsetY := - 1 * offsetY s3\<rparr>;
              s5 = send (MoveRelative 3000 (offsetX s4) (offsetY s4)) s4;
              s6 = s5\<lparr> offsetX := fst (calibrationCoordinates ! state s5),
                       offsetY := snd (calibrationCoordinates ! state s5) \<rparr>;
              s7 = send (MoveRelative 3000 (offsetX s6) (offsetY s6)) s6
          in Continue (s7\<lparr>state := state s7 + 1\<rparr>))"

text \<open>
  State 10 (lines 1564 to 1598). The comprehension indexes \<^verbatim>\<open>space_coordinates\<close> by
  the positions of \<^verbatim>\<open>camera_coordinates\<close> and raises \<^verbatim>\<open>IndexError\<close> if it is shorter;
  \<^verbatim>\<open>str(self.mpp)\<close> raises \<^verbatim>\<open>AttributeError\<close> if the attribute was never assigned.
\<close>

definition cam_calib_finalize :: "world \<Rightarrow> calib \<Rightarrow> step" where
  "cam_calib_finalize W s =
     (case mpp s of
        None \<Rightarrow> Fail AttributeError s
      | Some m \<Rightarrow>
         (let s1 = s\<lparr>oldxy := xy s\<rparr> in
          case save_sample s1 of
            Inl e \<Rightarrow> Fail e s1
          | Inr s2 \<Rightarrow>
              if length (space_coordinates s2) < length (camera_coordinates s2)
              then Fail IndexError s2
              else
                let s3 = s2\<lparr>transform_input :=
                           map (\<lambda>(i, camera). (space_coordinates s2 ! i, normalize_coords W camera))
                             (enumerate 0 (camera_coordinates s2))\<rparr>;
                    fit = least_square_mapping W (transform_input s3);
                    s4 = s3\<lparr>transform_matrix := Some (fst fit), transform_residual := snd fit\<rparr>;
                    newCenter = transpose_matmul (rows (fst fit)) [0, 0, 0, 0, 0, 1];
                    s5 = s4\<lparr>guess_position := (around (fst newCenter) 3, around (snd newCenter) 3)\<rparr>;
                    s6 = send (MoveAbsolute 1000 (Some (fst (guess_position s5)))
                                 (Some (snd (guess_position s5))) None) s5
                in Continue (s6\<lparr>state := 200\<rparr>)))"

text \<open>
  Lines 1611 to 1615: the corrective offset from the transform and the last detected
  position.
\<close>

definition centering_offsets :: "world \<Rightarrow> transform \<Rightarrow> pixel \<Rightarrow> rat \<times> rat" where
  "centering_offsets W T p =
     (let c = normalize_coords W p; cx = fst c; cy = snd c;
          v = [cx ^ 2, cy ^ 2, cx * cy, cx, cy, 0];
          off = transpose_matmul (scale_rows (55 / 100) (rows T)) v
      in (around (- 1 * fst off) 3, around (- 1 * snd off) 3))"

text \<open>
  The end of a converged run (lines 1631 to 1685): the final offsets of a tool from
  the control point, the firmware's stored offset and the machine position captured
  with the last frame.
\<close>

definition converged :: "world \<Rightarrow> ctool \<Rightarrow> nat \<Rightarrow> transform \<Rightarrow> calib \<Rightarrow> step" where
  "converged W ct rep T s =
     (let s1 = send (MoveAbsolute 13200 None None None) s in
      case ct of
        Endstop \<Rightarrow> Finish None (send (MoveAbsolute 13200 None None None) s1)
      | Tool n \<Rightarrow>
         (let s2 = send (GetToolOffset n) s1; tool_offsets = tool_offset W n in
          case tool_coordinates s2 of
            None \<Rightarrow> Fail TypeError s2
          | Some tc \<Rightarrow>
             (let final_x = around ((cX (cp_coords W) + cX tool_offsets) - cX tc) 3;
                  final_y = around ((cY (cp_coords W) + cY tool_offsets) - cY tc) 3
              in case mpp s2 of
                None \<Rightarrow> Fail AttributeError s2
              | Some m \<Rightarrow>
                 (let s3 = send (MoveAbsolute 13200 None None None) s2;
                      s4 = s3\<lparr>emitted := emitted s3 @
                             [\<lparr>r_tool = n, r_cycle = rep, r_mpp = m, r_X = final_x, r_Y = final_y\<rparr>]\<rparr>
                  in Finish (Some (\<lparr>ret_X = final_x, ret_Y = final_y, ret_MPP = m\<rparr>, T, m)) s4))))"

text \<open>
  State 200 (lines 1600 to 1688). The relative move stands in the \<^verbatim>\<open>else\<close> of
  \<^verbatim>\<open>if str(ctool) in "endstop"\<close>. \<^verbatim>\<open>self.transform_matrix.T\<close> raises
  \<^verbatim>\<open>AttributeError\<close> on the empty list.
\<close>

definition centering :: "world \<Rightarrow> ctool \<Rightarrow> nat \<Rightarrow> calib \<Rightarrow> step" where
  "centering W ct rep s =
     (let s1 = s\<lparr>calibration_moves := calibration_moves s + 1\<rparr> in
      case transform_matrix s1 of
        None \<Rightarrow> Fail AttributeError s1
      | Some T \<Rightarrow>
         (let s2 = s1\<lparr>offsets := centering_offsets W T (xy s1)\<rparr>;
              s3 = (if in_endstop ct
                    then (if \<bar>fst (offsets s2)\<bar> < 5 / 100 \<and> \<bar>snd (offsets s2)\<bar> < 5 / 100
                          then s2\<lparr>offsets := (0, 0)\<rparr> else s2)
                    else send (MoveRelative 1000 (fst (offsets s2)) (snd (offsets s2)))
                           (send LimitAxes s2));
              s4 = s3\<lparr>oldxy := xy s3\<rparr>
          in if fst (offsets s4) = 0 \<and> snd (offsets s4) = 0
             then converged W ct rep T s4
             else Continue (s4\<lparr>state := 200\<rparr>)))"

text \<open>
  The \<^verbatim>\<open>if\<close>/\<^verbatim>\<open>elif\<close> chain on \<^verbatim>\<open>self.state\<close>. In a state that no branch matches the
  code falls through to lines 1689 to 1691, which assign \<^verbatim>\<open>self.avg\<close>,
  \<^verbatim>\<open>self.location\<close> and \<^verbatim>\<open>self.count\<close> (attributes nothing reads), and loops.
\<close>

definition process :: "world \<Rightarrow> ctool \<Rightarrow> nat \<Rightarrow> calib \<Rightarrow> step" where
  "process W ct rep s =
     (if state s = 0 then cam_calib_init s
      else if 1 \<le> state s \<and> state s < length calibrationCoordinates then cam_calib_step s
      else if state s = length calibrationCoordinates then cam_calib_finalize W s
      else if state s = 200 then centering W ct rep s
      else Continue s)"

text \<open>
  The \<^verbatim>\<open>while True\<close> loop (lines 1481 to 1691) over the results that the calls of
  \<^verbatim>\<open>analyzeFrame\<close> / \<^verbatim>\<open>analyzeEndstop\<close> deliver: one call at the top of each iteration,
  a second one once \<^verbatim>\<open>detect_count\<close> has reached \<^verbatim>\<open>position_iterations\<close>.
\<close>

fun calibrate_loop ::
  "world \<Rightarrow> ctool \<Rightarrow> nat \<Rightarrow> calib \<Rightarrow> analysis list \<Rightarrow> calib_return outcome \<times> calib" where
  "calibrate_loop W ct rep s [] = (Polling, s)"
| "calibrate_loop W ct rep s (a # env) =
     (case unpack a s of
        Inl e \<Rightarrow> (Raised e, s)
      | Inr s1 \<Rightarrow>
          if position_iterations \<le> detect_count (accumulate s1)
          then
            (case env of
               [] \<Rightarrow> (Polling, average (accumulate s1))
             | b # env' \<Rightarrow>
                (case unpack b (average (accumulate s1)) of
                   Inl e \<Rightarrow> (Raised e, average (accumulate s1))
                 | Inr s2 \<Rightarrow>
                    (case process W ct rep s2 of
                       Continue s3 \<Rightarrow> calibrate_loop W ct rep s3 env'
                     | Finish r s3 \<Rightarrow> (Returned r, s3)
                     | Fail e s3 \<Rightarrow> (Raised e, s3))))
          else calibrate_loop W ct rep (accumulate s1) env)"

definition calibrateTool ::
  "world \<Rightarrow> ctool \<Rightarrow> nat \<Rightarrow> calib \<Rightarrow> analysis list \<Rightarrow> calib_return outcome \<times> calib" where
  "calibrateTool W ct rep s env = calibrate_loop W ct rep (calibrateTool_init s) env"

subsection \<open>Notions used in the proofs\<close>

definition calib_of :: "step \<Rightarrow> calib" where
  "calib_of r = (case r of Continue s \<Rightarrow> s | Finish x s \<Rightarrow> s | Fail e s \<Rightarrow> s)"

text \<open>A property of the thread after an iteration, and of the value a finished run returns.\<close>

definition step_ok :: "(calib \<Rightarrow> bool) \<Rightarrow> (calib_return \<Rightarrow> bool) \<Rightarrow> step \<Rightarrow> bool" where
  "step_ok P R r =
     (case r of Continue s \<Rightarrow> P s | Finish x s \<Rightarrow> P s \<and> R x | Fail e s \<Rightarrow> P s)"


text \<open>The invariant of a run that starts with a transform \<open>T\<close> fitted earlier.\<close>

definition kept :: "transform \<Rightarrow> sample list \<Rightarrow> calib \<Rightarrow> bool" where
  "kept T inp s = (state s = 200 \<and> transform_matrix s = Some T \<and> transform_input s = inp)"

text \<open>The thread at the state dispatch of an iteration that made two detections.\<close>

definition second_detection ::
  "calib \<Rightarrow> pixel \<Rightarrow> coords option \<Rightarrow> pixel \<Rightarrow> coords option \<Rightarrow> calib" where
  "second_detection s p tc q tc' =
     (average (accumulate (s\<lparr>xy := p, tool_coordinates := tc\<rparr>)))\<lparr>xy := q, tool_coordinates := tc'\<rparr>"

definition calib_ready :: "nat \<Rightarrow> calib \<Rightarrow> bool" where
  "calib_ready k s =
     (state s = k \<and> transform_matrix s = None \<and> length (space_coordinates s) = k \<and>
      length (camera_coordinates s) = k \<and> 4 \<le> detect_count s \<and>
      (k = 0 \<or> k = 1 \<or> mpp s \<noteq> None))"

definition fitted :: "world \<Rightarrow> calib \<Rightarrow> bool" where
  "fitted W s =
     (state s = 200 \<and> length (transform_input s) = 11 \<and>
      transform_matrix s = Some (fst (least_square_mapping W (transform_input s))) \<and>
      mpp s \<noteq> None \<and> 4 \<le> detect_count s)"

text \<open>A detection that carries a position and machine coordinates.\<close>

fun good :: "analysis \<Rightarrow> bool" where
  "good (Some (p, Some tc)) = True"
| "good a = False"

text \<open>
  A concrete setting for the examples: a 640 by 480 camera, and a solver that answers
  with a fixed matrix (the theorems hold for every solver).
\<close>

definition example_transform :: transform where
  "example_transform = Transform (0, 0) (0, 0) (0, 0) (1, 0) (0, 1) (100, 100)"

definition example_world :: world where
  "example_world =
     \<lparr> camera_width = 640, camera_height = 480,
       cp_coords = \<lparr>cX = 100, cY = 100, cZ = 10\<rparr>,
       tool_offset = (\<lambda>n. \<lparr>cX = 0, cY = 0, cZ = 0\<rparr>),
       lstsq = (\<lambda>A b. (example_transform, [])) \<rparr>"

definition detection_at :: "int \<Rightarrow> int \<Rightarrow> analysis" where
  "detection_at x y = Some ((x, y), Some \<lparr>cX = 100, cY = 100, cZ = 10\<rparr>)"

text \<open>More notions for the proofs: what a finished run returns, the printer calls of a
  centering step that finds the nozzle centred, and the attributes that detections leave alone.\<close>

definition returns_transform :: "transform \<Rightarrow> calib_return \<Rightarrow> bool" where
  "returns_transform T r = (case r of None \<Rightarrow> True | Some (x, T', m) \<Rightarrow> T' = T)"

definition centred_log :: "int \<Rightarrow> command list" where
  "centred_log n =
     [LimitAxes, MoveRelative 1000 0 0, MoveAbsolute 13200 None None None,
      GetToolOffset n, MoveAbsolute 13200 None None None]"

definition same_calibration :: "calib \<Rightarrow> calib \<Rightarrow> bool" where
  "same_calibration s s' =
     (state s' = state s \<and> transform_matrix s' = transform_matrix s \<and>
      transform_input s' = transform_input s \<and> mpp s' = mpp s \<and>
      printer_log s' = printer_log s)"

text \<open>
  Two calls in a row on one thread object, each seeing the nozzle at the centre of the
  frame: the first for tool 0 on the new thread, the second for tool 1.
\<close>

definition first_run_example :: "calib_return outcome \<times> calib" where
  "first_run_example =
     calibrateTool example_world (Tool 0) 0 init_calib
       (replicate 26 (detection_at 320 240) @ [detection_at 320 240, detection_at 320 240])"

definition second_run_example :: "calib_return outcome \<times> calib" where
  "second_run_example =
     calibrateTool example_world (Tool 1) 0 (snd first_run_example)
       [detection_at 320 240, detection_at 320 240, detection_at 320 240,
        detection_at 320 240, detection_at 320 240, detection_at 320 240]"

text \<open>
  The thread after four detections counted from zero, and after a centering step of a
  tool that moved by \<open>(ox, oy)\<close>.
\<close>

definition after_four :: "calib \<Rightarrow> pixel \<Rightarrow> pixel \<Rightarrow> pixel \<Rightarrow> pixel \<Rightarrow> coords option \<Rightarrow> calib" where
  "after_four s p1 p2 p3 p4 t4 =
     s\<lparr> xy := p4, tool_coordinates := t4,
        average_location :=
          (fst (average_location s) + of_int (fst p1) + of_int (fst p2) + of_int (fst p3) +
             of_int (fst p4),
           snd (average_location s) + of_int (snd p1) + of_int (snd p2) + of_int (snd p3) +
             of_int (snd p4)),
        detect_count := 4 \<rparr>"

definition after_move :: "calib \<Rightarrow> rat \<Rightarrow> rat \<Rightarrow> calib" where
  "after_move s ox oy =
     s\<lparr> calibration_moves := calibration_moves s + 1, offsets := (ox, oy),
        printer_log := printer_log s @ [LimitAxes, MoveRelative 1000 ox oy],
        oldxy := xy s, state := 200 \<rparr>"

text \<open>
  An endstop run on a thread that holds a transform, with the endstop seen 64 pixels to
  the right of the centre in each of \<open>4 + 2 n\<close> frames.
\<close>

definition endstop_example :: "nat \<Rightarrow> calib_return outcome \<times> calib" where
  "endstop_example n =
     calibrateTool example_world Endstop 1 (init_calib\<lparr>transform_matrix := Some example_transform\<rparr>)
       (replicate (4 + 2 * n) (detection_at 384 240))"

text \<open>
  A tool run on a thread that holds a transform: five detections at the centre of the
  frame and a sixth one 64 pixels to its right; then the same run with two more
  detections, the last one at the centre.
\<close>

definition average_start :: calib where
  "average_start =
     init_calib\<lparr>transform_matrix := Some example_transform, mpp := Some ((320, 240), (330, 240))\<rparr>"

definition average_example :: "calib_return outcome \<times> calib" where
  "average_example =
     calibrateTool example_world (Tool 0) 0 average_start
       [detection_at 320 240, detection_at 320 240, detection_at 320 240,
        detection_at 320 240, detection_at 320 240, detection_at 384 240]"

definition average_example_next :: "calib_return outcome \<times> calib" where
  "average_example_next =
     calibrateTool example_world (Tool 0) 0 average_start
       [detection_at 320 240, detection_at 320 240, detection_at 320 240,
        detection_at 320 240, detection_at 320 240, detection_at 384 240,
        detection_at 448 240, detection_at 320 240]"

definition average_moved :: calib where
  "average_moved =
     after_move (second_detection
       (after_four (calibrateTool_init average_start) (320, 240) (320, 240) (320, 240) (320, 240)
          (Some \<lparr>cX = 100, cY = 100, cZ = 10\<rparr>))
       (320, 240) (Some \<lparr>cX = 100, cY = 100, cZ = 10\<rparr>)
       (384, 240) (Some \<lparr>cX = 100, cY = 100, cZ = 10\<rparr>)) (- (55 / 1000)) 0"

subsection \<open>\<^verbatim>\<open>analyzeFrame\<close>\<close>

text \<open>
  What one pass of the loop of \<^verbatim>\<open>analyzeFrame\<close> reads from outside: the flag
  \<^verbatim>\<open>self.detection_on\<close> in the loop condition, and again in the test after the loop
  if the loop is left in this pass; whether \<^verbatim>\<open>cap.read()\<close> delivered a frame; the
  printer's coordinates (\<open>None\<close> if \<^verbatim>\<open>getCoordinates\<close> raised); the shape of the frame
  (rows, columns); the keypoints that the detector finds in the processed frame; and
  the clock in milliseconds.
\<close>

record keypoint =
  kp_pt :: "rat \<times> rat"
  kp_size :: rat

record frame_event =
  detection_on :: bool
  detection_on_after :: bool
  ret :: bool
  coordinates :: "coords option"
  shape :: "int \<times> int"
  keypoints :: "keypoint list"
  clock :: int

text \<open>
  The texts of \<^verbatim>\<open>message_update\<close>: \<^verbatim>\<open>'Error in detecting nozzle.'\<close>,
  \<^verbatim>\<open>'No circles found.'\<close>, \<^verbatim>\<open>'Too many circles found. Please stop and clean the nozzle.'\<close>
  and the position and radius of the nozzle.
\<close>

datatype status = ErrorDetecting | NoCircles | TooManyCircles | Located rat rat rat

datatype signal = ChangePixmap | CrosshairDisplay bool | MessageUpdate status

text \<open>
  The local variables; \<open>None\<close> stands for a name that has not been assigned yet.
\<close>

record frame_state =
  f_xy :: pixel
  f_target :: "(int \<times> int) option"
  f_toolCoordinates :: "coords option option"
  f_r :: "rat option"
  nocircle :: nat
  rd :: int
  signals :: "signal list"

definition init_frame_state :: "int \<Rightarrow> frame_state" where
  "init_frame_state now =
     \<lparr> f_xy = (0, 0), f_target = None, f_toolCoordinates = None, f_r = None,
       nocircle = 0, rd = now, signals = [] \<rparr>"

definition emit :: "signal list \<Rightarrow> frame_state \<Rightarrow> frame_state" where
  "emit sigs s = s\<lparr>signals := signals s @ sigs\<rparr>"

text \<open>\<^verbatim>\<open>np.uint16(np.around(...))\<close> of a keypoint's position.\<close>

definition uint16_pt :: "rat \<times> rat \<Rightarrow> pixel" where
  "uint16_pt p = (rint (fst p) mod 65536, rint (snd p) mod 65536)"

datatype frame_step = Next frame_state | Break frame_state

text \<open>The body of the loop for a frame that was read (lines 1250 to 1354).\<close>

definition process_frame :: "frame_state \<Rightarrow> frame_event \<Rightarrow> frame_step" where
  "process_frame s e =
     (let s1 = s\<lparr> f_toolCoordinates := Some (coordinates e),
                  f_target := Some (rint (of_int (snd (shape e)) / 2),
                                    rint (of_int (fst (shape e)) / 2)) \<rparr>;
          s2 = emit [ChangePixmap] s1;
          num_keypoints = length (keypoints e)
      in if 25 < nocircle s2 then Next ((emit [MessageUpdate ErrorDetecting] s2)\<lparr>nocircle := 0\<rparr>)
         else if num_keypoints = 0 then
           (if 25 < clock e - rd s2
            then Next (emit [MessageUpdate NoCircles, CrosshairDisplay False, ChangePixmap]
                        (s2\<lparr>nocircle := nocircle s2 + 1\<rparr>))
            else Next s2)
         else if 1 < num_keypoints then
           (if 25 < clock e - rd s2
            then Next (emit [MessageUpdate TooManyCircles, CrosshairDisplay False, ChangePixmap] s2)
            else Next s2)
         else
           (let k = keypoints e ! 0;
                x = of_int (rint (fst (kp_pt k)));
                y = of_int (rint (snd (kp_pt k)));
                r = of_int (rint (kp_size k / 2));
                s3 = s2\<lparr>nocircle := 0, f_xy := uint16_pt (kp_pt k), f_r := Some r\<rparr>;
                s4 = emit [CrosshairDisplay True, MessageUpdate (Located x y r), ChangePixmap] s3
            in Break (s4\<lparr>rd := clock e\<rparr>)))"

text \<open>
  The loop \<^verbatim>\<open>while True and self.detection_on\<close> over the passes: it is left at a pass
  whose flag is false or whose frame shows one circle, and is still running when the
  passes are used up.
\<close>

datatype loop_exit = Left frame_state frame_event | Waiting frame_state

fun analyze_loop :: "frame_state \<Rightarrow> frame_event list \<Rightarrow> loop_exit" where
  "analyze_loop s [] = Waiting s"
| "analyze_loop s (e # es) =
     (if \<not> detection_on e then Left s e
      else if \<not> ret e then analyze_loop s es
      else case process_frame s e of
             Next s1 \<Rightarrow> analyze_loop s1 es
           | Break s1 \<Rightarrow> Left s1 e)"

type_synonym frame_result = "pixel \<times> (int \<times> int) \<times> coords option \<times> rat"

text \<open>
  Lines 1356 to 1361. The tuple names \<^verbatim>\<open>target\<close>, \<^verbatim>\<open>toolCoordinates\<close> and \<^verbatim>\<open>r\<close>, which
  raise \<^verbatim>\<open>UnboundLocalError\<close> if no pass has assigned them.
\<close>

definition analyzeFrame_return :: "bool \<Rightarrow> frame_state \<Rightarrow> frame_result option outcome" where
  "analyzeFrame_return flag s =
     (if flag then
        (case f_target s of
           None \<Rightarrow> Raised UnboundLocalError
         | Some t \<Rightarrow>
            (case f_toolCoordinates s of
               None \<Rightarrow> Raised UnboundLocalError
             | Some tc \<Rightarrow>
                (case f_r s of
                   None \<Rightarrow> Raised UnboundLocalError
                 | Some r \<Rightarrow> Returned (Some (f_xy s, t, tc, r)))))
      else Returned None)"

definition analyzeFrame ::
  "int \<Rightarrow> frame_event list \<Rightarrow> frame_result option outcome \<times> frame_state" where
  "analyzeFrame now events =
     (case analyze_loop (init_frame_state now) events of
        Waiting s \<Rightarrow> (Polling, s)
      | Left s e \<Rightarrow> (analyzeFrame_return (detection_on_after e) s, s))"

text \<open>
  What line 1484 of \<^verbatim>\<open>calibrateTool\<close> keeps of the value that \<^verbatim>\<open>analyzeFrame\<close> returned.
\<close>

definition analysis_of :: "frame_result option \<Rightarrow> analysis" where
  "analysis_of r = (case r of None \<Rightarrow> None | Some (p, t, tc, rad) \<Rightarrow> Some (p, tc))"

text \<open>The signals of a pass that reads a frame without exactly one circle.\<close>

definition skipped_signals :: "frame_state \<Rightarrow> frame_event \<Rightarrow> signal list" where
  "skipped_signals s e =
     ChangePixmap #
     (if 25 < nocircle s then [MessageUpdate ErrorDetecting]
      else if 25 < clock e - rd s
      then [MessageUpdate (if keypoints e = [] then NoCircles else TooManyCircles),
            CrosshairDisplay False, ChangePixmap]
      else [])"

text \<open>
  Three passes for the examples: a frame with two circles 10 ms after the call started,
  a pass that finds the flag switched off, and a frame with one circle.
\<close>

definition two_circles :: frame_event where
  "two_circles =
     \<lparr> detection_on = True, detection_on_after = True, ret = True,
       coordinates = Some \<lparr>cX = 100, cY = 100, cZ = 10\<rparr>, shape = (480, 640),
       keypoints = [\<lparr>kp_pt = (100, 100), kp_size = 20\<rparr>, \<lparr>kp_pt = (300, 200), kp_size = 24\<rparr>],
       clock = 10 \<rparr>"

definition switched_off :: frame_event where
  "switched_off =
     \<lparr> detection_on = False, detection_on_after = False, ret = True,
       coordinates = Some \<lparr>cX = 100, cY = 100, cZ = 10\<rparr>, shape = (480, 640),
       keypoints = [\<lparr>kp_pt = (320, 240), kp_size = 24\<rparr>], clock = 60 \<rparr>"

definition one_circle :: frame_event where
  "one_circle =
     \<lparr> detection_on = True, detection_on_after = True, ret = True,
       coordinates = Some \<lparr>cX = 100, cY = 100, cZ = 10\<rparr>, shape = (480, 640),
       keypoints = [\<lparr>kp_pt = (320, 240), kp_size = 24\<rparr>],
       clock = 40 \<rparr>"

subsection \<open>\<^verbatim>\<open>run\<close>: one tool of one cycle\<close>

text \<open>The global \<^verbatim>\<open>_moveSpeed\<close>.\<close>

definition moveSpeed :: nat where
  "moveSpeed = 6000"

text \<open>Python's \<^verbatim>\<open>a in b\<close> for strings: \<open>a\<close> occurs in \<open>b\<close> as a substring.\<close>

fun in_str :: "string \<Rightarrow> string \<Rightarrow> bool" where
  "in_str a [] = (a = [])"
| "in_str a (c # cs) = (take (length a) (c # cs) = a \<or> in_str a cs)"

text \<open>
  Lines 1063 to 1069: the tool is loaded and moved to the control point, one axis
  at a time.
\<close>

definition approach :: "world \<Rightarrow> int \<Rightarrow> command list" where
  "approach W n =
     [GetJSON, LoadTool n,
      MoveAbsolute moveSpeed (Some (cX (cp_coords W))) None None,
      MoveAbsolute moveSpeed None (Some (cY (cp_coords W))) None,
      MoveAbsolute moveSpeed None None (Some (cZ (cp_coords W)))]"

text \<open>
  Lines 1072 to 1091: \<^verbatim>\<open>while self.parent().printer.getStatus() not in 'idle'\<close>, over
  the answers of the printer. The result tells whether the loop was left; it is still
  polling when the answers are used up.
\<close>

fun wait_idle :: "calib \<Rightarrow> string list \<Rightarrow> calib \<times> bool" where
  "wait_idle s [] = (s, False)"
| "wait_idle s (st # sts) =
     (let s1 = send (GetStatus st) s in
      if in_str st ''idle'' then (s1, True) else wait_idle s1 sts)"

text \<open>
  Lines 1102 to 1107: the value of \<^verbatim>\<open>calibrateTool\<close> is unpacked into three names, which
  raises \<^verbatim>\<open>TypeError\<close> on \<open>None\<close>, and the offsets are sent to the printer.
\<close>

definition apply_offsets :: "int \<Rightarrow> calib_return outcome \<times> calib \<Rightarrow> unit outcome \<times> calib" where
  "apply_offsets n res =
     (case res of
        (Returned (Some (c, T, m)), s3) \<Rightarrow>
          (Returned (), send (SetToolOffsets n (ret_X c) (ret_Y c)) s3)
      | (Returned None, s3) \<Rightarrow> (Raised TypeError, s3)
      | (Raised e, s3) \<Rightarrow> (Raised e, s3)
      | (Polling, s3) \<Rightarrow> (Polling, s3))"

text \<open>
  The body of the loop over the tools (lines 1055 to 1107): approach, wait for idle,
  calibrate, apply.
\<close>

definition run_tool ::
  "world \<Rightarrow> int \<Rightarrow> nat \<Rightarrow> calib \<Rightarrow> string list \<Rightarrow> analysis list \<Rightarrow> unit outcome \<times> calib" where
  "run_tool W n rep s statuses env =
     (let s1 = foldl (\<lambda>s c. send c s) s (approach W n);
          w = wait_idle s1 statuses
      in if \<not> snd w then (Polling, fst w)
         else apply_offsets n (calibrateTool W (Tool n) rep (fst w) env))"

fun is_status :: "command \<Rightarrow> bool" where
  "is_status (GetStatus st) = True"
| "is_status c = False"

text \<open>
  The reading of C5 on a list of printer calls: when a centering move (a relative move at
  speed 1000) is sent, the last call before it that is a move or a status query is a
  status query answered idle.
\<close>

fun idle_before_moves :: "bool \<Rightarrow> command list \<Rightarrow> bool" where
  "idle_before_moves idle [] = True"
| "idle_before_moves idle (GetStatus st # cs) = idle_before_moves (in_str st ''idle'') cs"
| "idle_before_moves idle (MoveRelative v x y # cs) =
     ((if v = 1000 then idle else True) \<and> idle_before_moves False cs)"
| "idle_before_moves idle (MoveAbsolute v x y z # cs) = idle_before_moves False cs"
| "idle_before_moves idle (c # cs) = idle_before_moves idle cs"

text \<open>The calls sent since \<open>base\<close> hold no status query.\<close>

definition quiet :: "command list \<Rightarrow> calib \<Rightarrow> bool" where
  "quiet base s = (\<exists>cmds. printer_log s = base @ cmds \<and> list_all (\<lambda>c. \<not> is_status c) cmds)"

text \<open>
  One tool of one cycle on a thread that holds a transform: the printer answers busy,
  then idle; the nozzle is seen five times at the centre, then 64 pixels to its right,
  then at the centre and 64 pixels to its left.
\<close>

definition idle_example :: "unit outcome \<times> calib" where
  "idle_example =
     run_tool example_world 0 0 average_start [''busy'', ''idle'']
       [detection_at 320 240, detection_at 320 240, detection_at 320 240,
        detection_at 320 240, detection_at 320 240, detection_at 384 240,
        detection_at 320 240, detection_at 256 240]"

subsection \<open>The export of \<^verbatim>\<open>App.analyzeResults\<close>\<close>

text \<open>
  The values that occur in \<^verbatim>\<open>self.calibrationResults\<close>: strings (each result that
  \<^verbatim>\<open>calibrateTool\<close> emits is a dictionary of strings) and the time stamp of the marker.
  A dictionary is the list of its items in insertion order.
\<close>

datatype pyvalue = PStr string | PDatetime int

type_synonym pydict = "(string \<times> pyvalue) list"

text \<open>
  The name \<^verbatim>\<open>datetime\<close> in \<^verbatim>\<open>TAMV_GUI.py\<close> is bound by \<^verbatim>\<open>import datetime\<close> (line 64) to the
  module. The class \<^verbatim>\<open>datetime.datetime\<close> has the method \<^verbatim>\<open>now\<close>; the module has no
  attribute of that name, and \<^verbatim>\<open>datetime.now()\<close> on it raises \<^verbatim>\<open>AttributeError\<close>.
\<close>

datatype pyobject = DatetimeModule | DatetimeClass

definition datetime_name :: pyobject where
  "datetime_name = DatetimeModule"

fun call_now :: "pyobject \<Rightarrow> int \<Rightarrow> pyerr + pyvalue" where
  "call_now DatetimeModule stamp = Inl AttributeError"
| "call_now DatetimeClass stamp = Inr (PDatetime stamp)"

text \<open>The part of the application object that the export touches, and the files on disk.\<close>

record app =
  calibrationResults :: "pydict list"
  printerURL :: string
  statusBar :: "string list"
  files :: "string \<rightharpoonup> string"

definition addCalibrationResult :: "pydict \<Rightarrow> app \<Rightarrow> app" where
  "addCalibrationResult result a = a\<lparr>calibrationResults := calibrationResults a @ [result]\<rparr>"

definition updateStatusbar :: "string \<Rightarrow> app \<Rightarrow> app" where
  "updateStatusbar statusCode a = a\<lparr>statusBar := statusBar a @ [statusCode]\<rparr>"

text \<open>
  \<^verbatim>\<open>analyzeResults(export=True)\<close>, lines 3118 to 3231, with \<^verbatim>\<open>json.dump\<close> as the parameter
  \<open>dump\<close> (the text it writes, or the exception it raises). The dictionary of the marker
  is evaluated before \<^verbatim>\<open>append\<close> is called; \<^verbatim>\<open>open('output.json', 'w')\<close> empties the file
  before \<^verbatim>\<open>json.dump\<close> writes. The handler of the \<^verbatim>\<open>try\<close> reports on the status bar.
  \<^verbatim>\<open>parseData\<close>, whose values only the graph uses, is left out.
\<close>

definition analyzeResults_export :: "(pydict list \<Rightarrow> pyerr + string) \<Rightarrow> int \<Rightarrow> app \<Rightarrow> app" where
  "analyzeResults_export dump stamp a =
     (if length (calibrationResults a) < 1 then updateStatusbar ''No calibration data found.'' a
      else
        (case call_now datetime_name stamp of
           Inl e \<Rightarrow> updateStatusbar ''Error exporting data, please check terminal for details.'' a
         | Inr d \<Rightarrow>
            (let a1 = a\<lparr>calibrationResults := calibrationResults a @
                          [[(''printer'', PStr (printerURL a)), (''datetime'', d)]]\<rparr>;
                 a2 = a1\<lparr>files := (files a1)(''output.json'' \<mapsto> [])\<rparr>
             in case dump (calibrationResults a2) of
                  Inl e \<Rightarrow>
                    updateStatusbar ''Error exporting data, please check terminal for details.'' a2
                | Inr txt \<Rightarrow> a2\<lparr>files := (files a2)(''output.json'' \<mapsto> txt)\<rparr>)))"

text \<open>A session with the result of one tool, and no file written yet.\<close>

definition export_example :: app where
  "export_example =
     addCalibrationResult
       [(''tool'', PStr ''0''), (''cycle'', PStr ''0''), (''mpp'', PStr ''0.05''),
        (''X'', PStr ''0.000''), (''Y'', PStr ''0.000'')]
       \<lparr> calibrationResults = [], printerURL = ''http://localhost'', statusBar = [],
         files = Map.empty \<rparr>"

section \<open>Theorems\<close>

subsection \<open>The loop of \<^verbatim>\<open>calibrateTool\<close>: invariants\<close>

lemma loop_preserves:
  assumes u: "\<And>a s s1. unpack a s = Inr s1 \<Longrightarrow> P s \<Longrightarrow> P s1"
    and ac: "\<And>s. P s \<Longrightarrow> P (accumulate s)"
    and av: "\<And>s. P s \<Longrightarrow> P (average s)"
    and pr: "\<And>s. P s \<Longrightarrow> step_ok P R (process W ct rep s)"
  shows "P s \<Longrightarrow> P (snd (calibrate_loop W ct rep s env)) \<and>
         (\<forall>r. fst (calibrate_loop W ct rep s env) = Returned r \<longrightarrow> R r)"
proof (induction env arbitrary: s rule: length_induct)
  case (1 env)
  have ih: "P x \<Longrightarrow> length ys < length env \<Longrightarrow>
      P (snd (calibrate_loop W ct rep x ys)) \<and>
      (\<forall>r. fst (calibrate_loop W ct rep x ys) = Returned r \<longrightarrow> R r)" for x ys
    using "1.IH" by blast
  show ?case
  proof (cases env)
    case Nil
    then show ?thesis using "1.prems" by simp
  next
    case (Cons a env1)
    show ?thesis
    proof (cases "unpack a s")
      case (Inl e)
      then show ?thesis using Cons "1.prems" by simp
    next
      case (Inr s1)
      have i1: "P (accumulate s1)" using Inr "1.prems" u ac by blast
      show ?thesis
      proof (cases "position_iterations \<le> detect_count (accumulate s1)")
        case False
        then show ?thesis using Cons Inr ih [OF i1, of env1] by simp
      next
        case True
        have i2: "P (average (accumulate s1))" using i1 av by blast
        show ?thesis
        proof (cases env1)
          case Nil
          then show ?thesis using Cons Inr True i2 by simp
        next
          case c2: (Cons b env2)
          show ?thesis
          proof (cases "unpack b (average (accumulate s1))")
            case (Inl e)
            then show ?thesis using Cons c2 Inr True i2 by simp
          next
            case s2: (Inr s2)
            have i3: "P s2" using s2 i2 u by blast
            have i4: "step_ok P R (process W ct rep s2)" using i3 by (rule pr)
            show ?thesis
            proof (cases "process W ct rep s2")
              case (Continue s3)
              then have "P s3" using i4 by (simp add: step_ok_def)
              then show ?thesis
                using Cons c2 Inr True s2 Continue ih [of s3 env2] by simp
            next
              case (Finish r s3)
              then show ?thesis using Cons c2 Inr True s2 i4 by (simp add: step_ok_def)
            next
              case (Fail e s3)
              then show ?thesis using Cons c2 Inr True s2 i4 by (simp add: step_ok_def)
            qed
          qed
        qed
      qed
    qed
  qed
qed

lemma len_cc: "length calibrationCoordinates = 10"
  by (simp add: calibrationCoordinates_def)











subsection \<open>C9: the relaxed preset and the rebuilt detector\<close>

text \<open>
  C9. After a switch to the relaxed preset and the rebuild that follows it, the
  detector's lower convexity bound is the literal 0.3 of \<^verbatim>\<open>createDetector\<close>, while the
  active (relaxed) preset holds 0.1: the rebuilt detector does not carry every value of
  the active preset. The thresholds, area bounds and lower circularity bound do follow
  the preset.
\<close>

theorem createDetector_ignores_loose_convexity:
  "(let s = rebuild_if_changed (toggleLoose init_detector_state) in
      loose s \<and> \<not> detector_changed s \<and> attrs s = detectParamsLoose \<and>
      detect_minConvexity (attrs s) = 1 / 10 \<and>
      map_option minConvexity (detector s) = Some (3 / 10) \<and>
      map_option minArea (detector s) = Some 600 \<and>
      map_option maxArea (detector s) = Some 15000 \<and>
      map_option minCircularity (detector s) = Some (6 / 10))"
  by (simp add: rebuild_if_changed_def toggleLoose_def init_detector_state_def
      createDetector_def detectParamsLoose_def Let_def)

subsection \<open>The loop of \<^verbatim>\<open>calibrateTool\<close>: progress\<close>

lemma loop_one:
  "detect_count s < 4 \<Longrightarrow>
   calibrate_loop W ct rep s (Some (p, tc) # env) =
   calibrate_loop W ct rep (accumulate (s\<lparr>xy := p, tool_coordinates := tc\<rparr>)) env"
  by (simp add: unpack_def accumulate_def position_iterations_def)

lemma loop_two:
  "4 \<le> detect_count s \<Longrightarrow>
   calibrate_loop W ct rep s (Some (p, tc) # Some (q, tc') # env) =
   (case process W ct rep (second_detection s p tc q tc') of
      Continue s3 \<Rightarrow> calibrate_loop W ct rep s3 env
    | Finish r s3 \<Rightarrow> (Returned r, s3)
    | Fail e s3 \<Rightarrow> (Raised e, s3))"
  by (simp add: unpack_def second_detection_def accumulate_def position_iterations_def)

lemma good_cases: "good a \<Longrightarrow> \<exists>p tc. a = Some (p, Some tc)"
  by (cases a rule: good.cases) auto

lemma ready_init:
  "calib_ready 0 s \<Longrightarrow>
   \<exists>s3. process W ct rep (second_detection s p (Some tc) q (Some tc')) = Continue s3 \<and>
        calib_ready 1 s3"
  by (simp add: calib_ready_def second_detection_def process_def cam_calib_init_def
      save_sample_def send_def average_def accumulate_def Let_def)

lemma ready_step:
  "calib_ready k s \<Longrightarrow> 1 \<le> k \<Longrightarrow> k < 10 \<Longrightarrow>
   \<exists>s3. process W ct rep (second_detection s p (Some tc) q (Some tc')) = Continue s3 \<and>
        calib_ready (Suc k) s3"
  by (auto simp: calib_ready_def second_detection_def process_def cam_calib_step_def len_cc
      save_sample_def send_def average_def accumulate_def Let_def)

lemma ready_finalize:
  "calib_ready 10 s \<Longrightarrow>
   \<exists>s3. process W ct rep (second_detection s p (Some tc) q (Some tc')) = Continue s3 \<and>
        fitted W s3"
  by (auto simp: calib_ready_def fitted_def second_detection_def process_def
      cam_calib_finalize_def len_cc save_sample_def send_def average_def accumulate_def Let_def)

lemma progress_from:
  "calib_ready k s \<Longrightarrow> 1 \<le> k \<Longrightarrow> k \<le> 10 \<Longrightarrow> list_all good env \<Longrightarrow>
   length env = 2 * (11 - k) \<Longrightarrow> n = 10 - k \<Longrightarrow>
   \<exists>s'. calibrate_loop W ct rep s (env @ rest) = calibrate_loop W ct rep s' rest \<and>
        fitted W s'"
proof (induction n arbitrary: k s env)
  case 0
  then have k: "k = 10" by simp
  with 0 have "length env = 2" by simp
  then obtain a b where env: "env = [a, b]"
    by (auto simp: length_Suc_conv numeral_2_eq_2)
  with 0 obtain p tc q tc' where ab: "a = Some (p, Some tc)" "b = Some (q, Some tc')"
    by (auto dest!: good_cases)
  from 0 have d: "4 \<le> detect_count s" by (simp add: calib_ready_def)
  from ready_finalize [of s W ct rep p tc q tc'] 0 k
  obtain s3 where
    s3: "process W ct rep (second_detection s p (Some tc) q (Some tc')) = Continue s3"
      "fitted W s3"
    by auto
  have "calibrate_loop W ct rep s (env @ rest) = calibrate_loop W ct rep s3 rest"
    unfolding env ab using loop_two [OF d, of W ct rep p "Some tc" q "Some tc'" rest] s3
    by simp
  then show ?case using s3 by blast
next
  case (Suc n)
  then have k: "1 \<le> k" "k < 10" by simp_all
  with Suc have "length env = Suc (Suc (2 * (10 - k)))" by simp
  then obtain a b env' where env: "env = a # b # env'" and len: "length env' = 2 * (10 - k)"
    by (auto simp: length_Suc_conv)
  with Suc obtain p tc q tc' where ab: "a = Some (p, Some tc)" "b = Some (q, Some tc')"
    by (auto dest!: good_cases)
  from Suc have d: "4 \<le> detect_count s" by (simp add: calib_ready_def)
  from ready_step [of k s W ct rep p tc q tc'] Suc.prems(1) k
  obtain s3 where
    s3: "process W ct rep (second_detection s p (Some tc) q (Some tc')) = Continue s3"
      "calib_ready (Suc k) s3"
    by auto
  have "\<exists>s'. calibrate_loop W ct rep s3 (env' @ rest) = calibrate_loop W ct rep s' rest \<and>
        fitted W s'"
    using Suc.prems k len env by (intro Suc.IH [OF s3(2)]) auto
  moreover have "calibrate_loop W ct rep s (env @ rest) =
      calibrate_loop W ct rep s3 (env' @ rest)"
    unfolding env ab
    using loop_two [OF d, of W ct rep p "Some tc" q "Some tc'" "env' @ rest"] s3 by simp
  ultimately show ?case by simp
qed

text \<open>
  A run that starts without a transform and receives 26 good detections (4 before the
  first averaged one, then two per state 0 to 10) has performed the fit.
\<close>

lemma fresh_reaches_fit:
  assumes "transform_matrix s = None" "list_all good env" "length env = 26"
  shows "\<exists>s'. calibrateTool W ct rep s (env @ rest) = calibrate_loop W ct rep s' rest \<and>
         fitted W s'"
proof -
  from assms(3) obtain a1 a2 a3 a4 a5 a6 env' where
    env: "env = a1 # a2 # a3 # a4 # a5 # a6 # env'" and len: "length env' = 20"
    by (auto simp: length_Suc_conv eval_nat_numeral)
  with assms(2) obtain p1 t1 p2 t2 p3 t3 p4 t4 p5 t5 p6 t6 where
    a: "a1 = Some (p1, Some t1)" "a2 = Some (p2, Some t2)" "a3 = Some (p3, Some t3)"
       "a4 = Some (p4, Some t4)" "a5 = Some (p5, Some t5)" "a6 = Some (p6, Some t6)"
    by (auto dest!: good_cases)
  define s0 where "s0 = calibrateTool_init s"
  define s1 where "s1 = accumulate (s0\<lparr>xy := p1, tool_coordinates := Some t1\<rparr>)"
  define s2 where "s2 = accumulate (s1\<lparr>xy := p2, tool_coordinates := Some t2\<rparr>)"
  define s3 where "s3 = accumulate (s2\<lparr>xy := p3, tool_coordinates := Some t3\<rparr>)"
  define s4 where "s4 = accumulate (s3\<lparr>xy := p4, tool_coordinates := Some t4\<rparr>)"
  define tl5 where "tl5 = a5 # a6 # env' @ rest"
  have c0: "detect_count s0 = 0" by (simp add: s0_def calibrateTool_init_def)
  have c1: "detect_count s1 = 1" by (simp add: s1_def accumulate_def c0)
  have c2: "detect_count s2 = 2" by (simp add: s2_def accumulate_def c1)
  have c3: "detect_count s3 = 3" by (simp add: s3_def accumulate_def c2)
  have c4: "detect_count s4 = 4" by (simp add: s4_def accumulate_def c3)
  have w1: "calibrate_loop W ct rep s0 (a1 # a2 # a3 # a4 # tl5) =
            calibrate_loop W ct rep s1 (a2 # a3 # a4 # tl5)"
    unfolding a s1_def by (rule loop_one) (simp add: c0)
  have w2: "calibrate_loop W ct rep s1 (a2 # a3 # a4 # tl5) =
            calibrate_loop W ct rep s2 (a3 # a4 # tl5)"
    unfolding a s2_def by (rule loop_one) (simp add: c1)
  have w3: "calibrate_loop W ct rep s2 (a3 # a4 # tl5) = calibrate_loop W ct rep s3 (a4 # tl5)"
    unfolding a s3_def by (rule loop_one) (simp add: c2)
  have w4: "calibrate_loop W ct rep s3 (a4 # tl5) = calibrate_loop W ct rep s4 tl5"
    unfolding a s4_def by (rule loop_one) (simp add: c3)
  have warm: "calibrateTool W ct rep s (env @ rest) = calibrate_loop W ct rep s4 tl5"
    unfolding calibrateTool_def s0_def [symmetric] env using w1 w2 w3 w4
    by (simp add: tl5_def)
  have r0: "calib_ready 0 s4"
    using assms(1) c4
    by (simp add: s4_def s3_def s2_def s1_def s0_def calib_ready_def calibrateTool_init_def
        accumulate_def len_transform_def)
  then have d: "4 \<le> detect_count s4" by (simp add: calib_ready_def)
  from ready_init [OF r0, of W ct rep p5 t5 p6 t6]
  obtain s5 where
    s5: "process W ct rep (second_detection s4 p5 (Some t5) p6 (Some t6)) = Continue s5"
      "calib_ready 1 s5"
    by auto
  have "calibrateTool W ct rep s (env @ rest) = calibrate_loop W ct rep s5 (env' @ rest)"
    unfolding warm tl5_def a
    using loop_two [OF d, of W ct rep p5 "Some t5" p6 "Some t6" "env' @ rest"] s5 by simp
  moreover have "\<exists>s'. calibrate_loop W ct rep s5 (env' @ rest) =
        calibrate_loop W ct rep s' rest \<and> fitted W s'"
    using assms(2) len env by (intro progress_from [OF s5(2), where n = 9]) auto
  ultimately show ?thesis by simp
qed

lemma good_detection_at: "list_all good (replicate n (detection_at x y))"
  by (simp add: list_all_iff detection_at_def)

subsection \<open>C1: the samples of the fit\<close>




subsection \<open>Runs on a thread that already holds a transform\<close>

lemma kept_unpack: "unpack a s = Inr s1 \<Longrightarrow> kept T inp s \<Longrightarrow> kept T inp s1"
  by (auto simp: unpack_def kept_def split: option.splits prod.splits)

lemma kept_accumulate: "kept T inp s \<Longrightarrow> kept T inp (accumulate s)"
  by (simp add: accumulate_def kept_def)

lemma kept_average: "kept T inp s \<Longrightarrow> kept T inp (average s)"
  by (simp add: average_def kept_def)

lemma kept_process:
  "kept T inp s \<Longrightarrow> step_ok (kept T inp) (returns_transform T) (process W ct rep s)"
  by (auto simp: process_def len_cc kept_def centering_def converged_def step_ok_def send_def
      returns_transform_def Let_def split: option.splits ctool.splits)

lemma kept_calibrateTool:
  assumes "transform_matrix s = Some T"
  shows "kept T (transform_input s) (snd (calibrateTool W ct rep s env)) \<and>
         (\<forall>r. fst (calibrateTool W ct rep s env) = Returned r \<longrightarrow> returns_transform T r)"
proof -
  have "kept T (transform_input s) (calibrateTool_init s)"
    using assms by (cases T) (simp add: kept_def calibrateTool_init_def len_transform_def)
  then show ?thesis
    unfolding calibrateTool_def
    using loop_preserves [where P = "kept T (transform_input s)" and R = "returns_transform T"
        and W = W and ct = ct and rep = rep and s = "calibrateTool_init s" and env = env]
      kept_unpack kept_accumulate kept_average kept_process
    by blast
qed

lemma tm_scale:
  "transpose_matmul (scale_rows c (rows T)) [a1, a2, a3, a4, a5, a6] =
   (c * fst (transpose_matmul (rows T) [a1, a2, a3, a4, a5, a6]),
    c * snd (transpose_matmul (rows T) [a1, a2, a3, a4, a5, a6]))"
  by (cases T) (simp add: transpose_matmul_def scale_rows_def algebra_simps split: prod.splits)

lemma around_zero: "around 0 d = 0"
  by (simp add: around_def rint_def)

lemma tm_zero: "transpose_matmul (rows T) [0, 0, 0, 0, 0, 0] = (0, 0)"
  by (cases T) (simp add: transpose_matmul_def)

lemma offsets_at_centre:
  "normalize_coords W p = (0, 0) \<Longrightarrow> centering_offsets W T p = (0, 0)"
  by (simp add: centering_offsets_def Let_def tm_scale tm_zero around_zero)

lemma finishes_at_centre:
  assumes "state s = 200" "transform_matrix s = Some T" "mpp s = Some m"
    "4 \<le> detect_count s" "normalize_coords W q = (0, 0)"
  shows "\<exists>x s'. calibrate_loop W (Tool n) rep s (Some (p, tc) # Some (q, Some tc') # env) =
           (Returned (Some (x, T, m)), s') \<and>
         transform_matrix s' = Some T \<and> mpp s' = Some m \<and>
         transform_input s' = transform_input s \<and>
         printer_log s' = printer_log s @ centred_log n"
  unfolding loop_two [OF assms(4)]
  using assms(1,2,3) offsets_at_centre [OF assms(5), of T]
  by (simp add: process_def len_cc second_detection_def centering_def converged_def send_def
      average_def accumulate_def centred_log_def Let_def)

lemma warm_up:
  assumes "detect_count s = 0"
  shows "\<exists>s4. calibrate_loop W ct rep s
             (Some (p1, t1) # Some (p2, t2) # Some (p3, t3) # Some (p4, t4) # env) =
           calibrate_loop W ct rep s4 env \<and>
         detect_count s4 = 4 \<and> same_calibration s s4"
proof -
  define s1 where "s1 = accumulate (s\<lparr>xy := p1, tool_coordinates := t1\<rparr>)"
  define s2 where "s2 = accumulate (s1\<lparr>xy := p2, tool_coordinates := t2\<rparr>)"
  define s3 where "s3 = accumulate (s2\<lparr>xy := p3, tool_coordinates := t3\<rparr>)"
  define s4 where "s4 = accumulate (s3\<lparr>xy := p4, tool_coordinates := t4\<rparr>)"
  have c1: "detect_count s1 = 1" by (simp add: s1_def accumulate_def assms)
  have c2: "detect_count s2 = 2" by (simp add: s2_def accumulate_def c1)
  have c3: "detect_count s3 = 3" by (simp add: s3_def accumulate_def c2)
  have c4: "detect_count s4 = 4" by (simp add: s4_def accumulate_def c3)
  have w1: "calibrate_loop W ct rep s
          (Some (p1, t1) # Some (p2, t2) # Some (p3, t3) # Some (p4, t4) # env) =
        calibrate_loop W ct rep s1 (Some (p2, t2) # Some (p3, t3) # Some (p4, t4) # env)"
    unfolding s1_def by (rule loop_one) (simp add: assms)
  have w2: "calibrate_loop W ct rep s1 (Some (p2, t2) # Some (p3, t3) # Some (p4, t4) # env) =
        calibrate_loop W ct rep s2 (Some (p3, t3) # Some (p4, t4) # env)"
    unfolding s2_def by (rule loop_one) (simp add: c1)
  have w3: "calibrate_loop W ct rep s2 (Some (p3, t3) # Some (p4, t4) # env) =
        calibrate_loop W ct rep s3 (Some (p4, t4) # env)"
    unfolding s3_def by (rule loop_one) (simp add: c2)
  have w4: "calibrate_loop W ct rep s3 (Some (p4, t4) # env) = calibrate_loop W ct rep s4 env"
    unfolding s4_def by (rule loop_one) (simp add: c3)
  have "calibrate_loop W ct rep s
          (Some (p1, t1) # Some (p2, t2) # Some (p3, t3) # Some (p4, t4) # env) =
        calibrate_loop W ct rep s4 env"
    using w1 w2 w3 w4 by simp
  moreover have "same_calibration s s4"
    by (simp add: same_calibration_def s4_def s3_def s2_def s1_def accumulate_def)
  ultimately show ?thesis using c4 by blast
qed

lemma reuse_run:
  assumes "transform_matrix s = Some T" "mpp s = Some m" "normalize_coords W q = (0, 0)"
  shows "\<exists>x s'. calibrateTool W (Tool n) rep s
             [Some (p1, t1), Some (p2, t2), Some (p3, t3), Some (p4, t4), Some (p5, t5),
              Some (q, Some tc)] = (Returned (Some (x, T, m)), s') \<and>
           transform_input s' = transform_input s \<and>
           printer_log s' = printer_log s @ centred_log n"
proof -
  have i: "detect_count (calibrateTool_init s) = 0" "state (calibrateTool_init s) = 200"
    "same_calibration (calibrateTool_init s\<lparr>state := state s\<rparr>) s"
    using assms(1)
    by (cases T; simp add: calibrateTool_init_def len_transform_def same_calibration_def)+
  from warm_up [OF i(1), of W "Tool n" rep p1 t1 p2 t2 p3 t3 p4 t4
      "[Some (p5, t5), Some (q, Some tc)]"]
  obtain s4 where s4: "calibrate_loop W (Tool n) rep (calibrateTool_init s)
        [Some (p1, t1), Some (p2, t2), Some (p3, t3), Some (p4, t4), Some (p5, t5),
         Some (q, Some tc)] = calibrate_loop W (Tool n) rep s4 [Some (p5, t5), Some (q, Some tc)]"
    "detect_count s4 = 4" "same_calibration (calibrateTool_init s) s4"
    by auto
  have f: "state s4 = 200" "transform_matrix s4 = Some T" "mpp s4 = Some m"
    "transform_input s4 = transform_input s" "printer_log s4 = printer_log s"
    using s4(3) i(2) assms(1,2)
    by (simp_all add: same_calibration_def calibrateTool_init_def)
  from finishes_at_centre [OF f(1,2,3) _ assms(3), of n rep p5 t5 tc "[]"] s4(2)
  show ?thesis unfolding calibrateTool_def s4(1) using f(4,5) by auto
qed

lemma first_run:
  assumes "transform_matrix s = None" "list_all good env" "length env = 26"
    "normalize_coords W q = (0, 0)"
  shows "\<exists>x T m s'. calibrateTool W (Tool n) rep s (env @ [Some (p, tc), Some (q, Some tc')]) =
             (Returned (Some (x, T, m)), s') \<and>
           transform_matrix s' = Some T \<and> mpp s' = Some m \<and>
           T = fst (least_square_mapping W (transform_input s')) \<and>
           length (transform_input s') = 11"
proof -
  from fresh_reaches_fit [OF assms(1,2,3), of W "Tool n" rep "[Some (p, tc), Some (q, Some tc')]"]
  obtain s1 where s1: "calibrateTool W (Tool n) rep s (env @ [Some (p, tc), Some (q, Some tc')]) =
      calibrate_loop W (Tool n) rep s1 [Some (p, tc), Some (q, Some tc')]" "fitted W s1"
    by auto
  from s1(2) obtain m where
    f: "state s1 = 200" "transform_matrix s1 = Some (fst (least_square_mapping W (transform_input s1)))"
      "mpp s1 = Some m" "4 \<le> detect_count s1" "length (transform_input s1) = 11"
    by (auto simp: fitted_def)
  from finishes_at_centre [OF f(1,2,3,4) assms(4), of n rep p tc tc' "[]"]
  obtain x s' where r: "calibrate_loop W (Tool n) rep s1 [Some (p, tc), Some (q, Some tc')] =
      (Returned (Some (x, fst (least_square_mapping W (transform_input s1)), m)), s')"
    "transform_matrix s' = Some (fst (least_square_mapping W (transform_input s1)))"
    "mpp s' = Some m" "transform_input s' = transform_input s1"
    by auto
  show ?thesis unfolding s1(1) r(1) using r(2,3,4) f(5) by simp
qed

lemma centre_normalized: "normalize_coords example_world (320, 240) = (0, 0)"
  by (simp add: normalize_coords_def example_world_def)

lemma first_run_example_facts:
  "\<exists>x m. fst first_run_example = Returned (Some (x, example_transform, m)) \<and>
         transform_matrix (snd first_run_example) = Some example_transform \<and>
         mpp (snd first_run_example) = Some m"
proof -
  have n: "transform_matrix init_calib = None" by (simp add: init_calib_def)
  have l: "length (replicate 26 (detection_at 320 240)) = 26" by simp
  from first_run [OF n good_detection_at l centre_normalized,
      where n = 0 and rep = 0 and p = "(320, 240)"
        and tc = "Some \<lparr>cX = 100, cY = 100, cZ = 10\<rparr>"
        and tc' = "\<lparr>cX = 100, cY = 100, cZ = 10\<rparr>"]
  obtain x T m s' where
    r: "first_run_example = (Returned (Some (x, T, m)), s')"
      "transform_matrix s' = Some T" "mpp s' = Some m"
      "T = fst (least_square_mapping example_world (transform_input s'))"
    unfolding first_run_example_def detection_at_def by blast
  have t: "T = example_transform"
    using r(4) by (simp add: least_square_mapping_def example_world_def)
  have a: "fst first_run_example = Returned (Some (x, example_transform, m))"
    by (simp only: r(1) t fst_conv)
  have b: "snd first_run_example = s'"
    by (simp only: r(1) snd_conv)
  have c: "transform_matrix (snd first_run_example) = Some example_transform"
    by (simp only: b r(2) t)
  have d: "mpp (snd first_run_example) = Some m"
    by (simp only: b r(3))
  from a c d show ?thesis by blast
qed

lemma second_run_example_facts:
  "\<exists>x m. fst second_run_example = Returned (Some (x, example_transform, m)) \<and>
         transform_input (snd second_run_example) = transform_input (snd first_run_example) \<and>
         printer_log (snd second_run_example) =
           printer_log (snd first_run_example) @ centred_log 1"
proof -
  from first_run_example_facts obtain m where
    f: "transform_matrix (snd first_run_example) = Some example_transform"
      "mpp (snd first_run_example) = Some m"
    by blast
  from reuse_run [OF f centre_normalized, of 1 0
      "(320, 240)" "Some \<lparr>cX = 100, cY = 100, cZ = 10\<rparr>"
      "(320, 240)" "Some \<lparr>cX = 100, cY = 100, cZ = 10\<rparr>"
      "(320, 240)" "Some \<lparr>cX = 100, cY = 100, cZ = 10\<rparr>"
      "(320, 240)" "Some \<lparr>cX = 100, cY = 100, cZ = 10\<rparr>"
      "(320, 240)" "Some \<lparr>cX = 100, cY = 100, cZ = 10\<rparr>"
      "\<lparr>cX = 100, cY = 100, cZ = 10\<rparr>"]
  obtain x s' where
    r: "second_run_example = (Returned (Some (x, example_transform, m)), s')"
      "transform_input s' = transform_input (snd first_run_example)"
      "printer_log s' = printer_log (snd first_run_example) @ centred_log 1"
    unfolding second_run_example_def detection_at_def by blast
  have a: "fst second_run_example = Returned (Some (x, example_transform, m))"
    by (simp only: r(1) fst_conv)
  have b: "snd second_run_example = s'"
    by (simp only: r(1) snd_conv)
  have c: "transform_input (snd second_run_example) = transform_input (snd first_run_example)"
    by (simp only: b r(2))
  have d: "printer_log (snd second_run_example) =
      printer_log (snd first_run_example) @ centred_log 1"
    by (simp only: b r(3))
  from a c d show ?thesis by blast
qed

subsection \<open>C2: which runs fit a transform\<close>

text \<open>
  C2, as amended. A run of \<^verbatim>\<open>calibrateTool\<close> on a thread object that already holds a
  transform \<open>T\<close> (fitted by an earlier run, for whichever tool and cycle) starts in the
  centering state 200 and stays there: it never fits again, \<open>transform_input\<close> is left as
  it was, the thread still holds \<open>T\<close> at the end, and a tool run that finishes returns
  \<open>T\<close>. (Only a run on a thread without a transform goes through the camera calibration;
  see C1.)
\<close>

theorem later_runs_reuse_transform:
  assumes "transform_matrix s = Some T"
    and "calibrateTool W ct rep s env = (out, s')"
  shows "state s' = 200 \<and> transform_matrix s' = Some T \<and>
         transform_input s' = transform_input s \<and>
         (\<forall>r. out = Returned r \<longrightarrow> returns_transform T r)"
  using kept_calibrateTool [OF assms(1), of W ct rep env] assms(2)
  by (simp add: kept_def)

text \<open>The theorem at the second of the two example calls.\<close>

theorem later_runs_reuse_transform_witness:
  "transform_matrix (snd first_run_example) = Some example_transform \<and>
   state (snd second_run_example) = 200 \<and>
   transform_matrix (snd second_run_example) = Some example_transform \<and>
   transform_input (snd second_run_example) = transform_input (snd first_run_example)"
proof -
  from first_run_example_facts
  have f: "transform_matrix (snd first_run_example) = Some example_transform" by auto
  have e: "calibrateTool example_world (Tool 1) 0 (snd first_run_example)
       [detection_at 320 240, detection_at 320 240, detection_at 320 240,
        detection_at 320 240, detection_at 320 240, detection_at 320 240] =
       (fst second_run_example, snd second_run_example)"
    by (simp add: second_run_example_def)
  from later_runs_reuse_transform [OF f e] f show ?thesis by simp
qed

text \<open>
  The claim as stated fails on the second example call: it returns the transform of the
  first call, no list has been handed to the fit, and all it sent to the printer are the
  calls of one centering step.
\<close>

theorem fresh_transform_counterexample:
  "(\<exists>x m. fst first_run_example = Returned (Some (x, example_transform, m))) \<and>
   (\<exists>x m. fst second_run_example = Returned (Some (x, example_transform, m))) \<and>
   transform_input (snd second_run_example) = transform_input (snd first_run_example) \<and>
   printer_log (snd second_run_example) =
     printer_log (snd first_run_example) @
       [LimitAxes, MoveRelative 1000 0 0, MoveAbsolute 13200 None None None,
        GetToolOffset 1, MoveAbsolute 13200 None None None]"
proof -
  from first_run_example_facts
  have a: "\<exists>x m. fst first_run_example = Returned (Some (x, example_transform, m))"
    by blast
  from second_run_example_facts
  have b: "\<exists>x m. fst second_run_example = Returned (Some (x, example_transform, m))"
    and c: "transform_input (snd second_run_example) = transform_input (snd first_run_example)"
    and d: "printer_log (snd second_run_example) =
      printer_log (snd first_run_example) @ centred_log 1"
    by blast+
  have e: "centred_log 1 =
      [LimitAxes, MoveRelative 1000 0 0, MoveAbsolute 13200 None None None,
       GetToolOffset 1, MoveAbsolute 13200 None None None]"
    by (simp only: centred_log_def)
  from a b c d [unfolded e] show ?thesis by blast
qed

subsection \<open>C3: the centering step of an endstop run\<close>

lemma sd_simps:
  "state (second_detection s p tc q tc') = state s"
  "transform_matrix (second_detection s p tc q tc') = transform_matrix s"
  "mpp (second_detection s p tc q tc') = mpp s"
  "xy (second_detection s p tc q tc') = q"
  "tool_coordinates (second_detection s p tc q tc') = tc'"
  "detect_count (second_detection s p tc q tc') = detect_count s + 1"
  "printer_log (second_detection s p tc q tc') = printer_log s"
  "calibration_moves (second_detection s p tc q tc') = calibration_moves s"
  "average_location (second_detection s p tc q tc') =
     (around ((fst (average_location s) + of_int (fst p)) / of_nat (detect_count s + 1)) 3,
      around ((snd (average_location s) + of_int (snd p)) / of_nat (detect_count s + 1)) 3)"
  by (simp_all add: second_detection_def average_def accumulate_def)

lemma process_200: "state s = 200 \<Longrightarrow> process W ct rep s = centering W ct rep s"
  by (simp add: process_def len_cc)

lemma centering_tool_moves:
  assumes "transform_matrix s = Some T" "centering_offsets W T (xy s) = (ox, oy)"
    "ox \<noteq> 0 \<or> oy \<noteq> 0"
  shows "centering W (Tool n) rep s =
     Continue (s\<lparr>calibration_moves := calibration_moves s + 1, offsets := (ox, oy),
                 printer_log := printer_log s @ [LimitAxes, MoveRelative 1000 ox oy],
                 oldxy := xy s, state := 200\<rparr>)"
  using assms by (auto simp: centering_def send_def Let_def)

lemma centering_endstop_stays:
  assumes "transform_matrix s = Some T" "centering_offsets W T (xy s) = (ox, oy)"
    "\<not> (\<bar>ox\<bar> < 5 / 100 \<and> \<bar>oy\<bar> < 5 / 100)"
  shows "centering W Endstop rep s =
     Continue (s\<lparr>calibration_moves := calibration_moves s + 1, offsets := (ox, oy),
                 oldxy := xy s, state := 200\<rparr>)"
  using assms by (auto simp: centering_def Let_def)

lemma offsets_right_of_centre:
  "centering_offsets example_world example_transform (384, 240) = (- (55 / 1000), 0)"
  by (simp add: centering_offsets_def normalize_coords_def example_world_def
      example_transform_def transpose_matmul_def scale_rows_def around_def rint_def Let_def)

lemma endstop_loop:
  assumes "state s = 200" "transform_matrix s = Some example_transform" "4 \<le> detect_count s"
  shows "\<exists>s'. calibrate_loop example_world Endstop rep s (replicate (2 * n) (detection_at 384 240)) =
           (Polling, s') \<and>
         printer_log s' = printer_log s \<and> calibration_moves s' = calibration_moves s + n \<and>
         state s' = 200 \<and> (0 < n \<longrightarrow> offsets s' = (- (55 / 1000), 0))"
  using assms
proof (induction n arbitrary: s)
  case 0
  then show ?case by simp
next
  case (Suc n)
  let ?tc = "Some \<lparr>cX = 100, cY = 100, cZ = 10\<rparr>"
  let ?s2 = "second_detection s (384, 240) ?tc (384, 240) ?tc"
  define s3 where "s3 = ?s2\<lparr>calibration_moves := calibration_moves ?s2 + 1,
      offsets := (- (55 / 1000), 0), oldxy := xy ?s2, state := 200\<rparr>"
  have r: "replicate (2 * Suc n) (detection_at 384 240) =
      Some ((384, 240), ?tc) # Some ((384, 240), ?tc) # replicate (2 * n) (detection_at 384 240)"
    by (simp add: detection_at_def)
  have o: "centering_offsets example_world example_transform (xy ?s2) = (- (55 / 1000), 0)"
    by (simp only: sd_simps offsets_right_of_centre)
  have t: "transform_matrix ?s2 = Some example_transform"
    by (simp only: sd_simps Suc.prems)
  have c: "centering example_world Endstop rep ?s2 = Continue s3"
    unfolding s3_def by (rule centering_endstop_stays [OF t o]) simp
  have p: "process example_world Endstop rep ?s2 = Continue s3"
    using c by (simp add: process_200 sd_simps Suc.prems)
  have step: "calibrate_loop example_world Endstop rep s (replicate (2 * Suc n) (detection_at 384 240)) =
      calibrate_loop example_world Endstop rep s3 (replicate (2 * n) (detection_at 384 240))"
    unfolding r loop_two [OF Suc.prems(3)] p by simp
  have s3: "state s3 = 200" "transform_matrix s3 = Some example_transform" "4 \<le> detect_count s3"
    "printer_log s3 = printer_log s" "calibration_moves s3 = calibration_moves s + 1"
    "offsets s3 = (- (55 / 1000), 0)"
    using Suc.prems by (simp_all add: s3_def sd_simps)
  from Suc.IH [OF s3(1,2,3)] obtain s' where
    e: "calibrate_loop example_world Endstop rep s3 (replicate (2 * n) (detection_at 384 240)) =
        (Polling, s')"
      "printer_log s' = printer_log s3" "calibration_moves s' = calibration_moves s3 + n"
      "state s' = 200" "0 < n \<longrightarrow> offsets s' = (- (55 / 1000), 0)"
    by blast
  have z: "n = 0 \<Longrightarrow> s' = s3" using e(1) by simp
  have "offsets s' = (- (55 / 1000), 0)" using e(5) z s3(6) by (cases n) auto
  then show ?case unfolding step e(1) using e(2,3,4) s3(4,5) by simp
qed

lemma warm_up_explicit:
  assumes "detect_count s = 0"
  shows "calibrate_loop W ct rep s
             (Some (p1, t1) # Some (p2, t2) # Some (p3, t3) # Some (p4, t4) # env) =
           calibrate_loop W ct rep (after_four s p1 p2 p3 p4 t4) env"
proof -
  define s1 where "s1 = accumulate (s\<lparr>xy := p1, tool_coordinates := t1\<rparr>)"
  define s2 where "s2 = accumulate (s1\<lparr>xy := p2, tool_coordinates := t2\<rparr>)"
  define s3 where "s3 = accumulate (s2\<lparr>xy := p3, tool_coordinates := t3\<rparr>)"
  define s4 where "s4 = accumulate (s3\<lparr>xy := p4, tool_coordinates := t4\<rparr>)"
  have c1: "detect_count s1 = 1" by (simp add: s1_def accumulate_def assms)
  have c2: "detect_count s2 = 2" by (simp add: s2_def accumulate_def c1)
  have c3: "detect_count s3 = 3" by (simp add: s3_def accumulate_def c2)
  have w1: "calibrate_loop W ct rep s
          (Some (p1, t1) # Some (p2, t2) # Some (p3, t3) # Some (p4, t4) # env) =
        calibrate_loop W ct rep s1 (Some (p2, t2) # Some (p3, t3) # Some (p4, t4) # env)"
    unfolding s1_def by (rule loop_one) (simp add: assms)
  have w2: "calibrate_loop W ct rep s1 (Some (p2, t2) # Some (p3, t3) # Some (p4, t4) # env) =
        calibrate_loop W ct rep s2 (Some (p3, t3) # Some (p4, t4) # env)"
    unfolding s2_def by (rule loop_one) (simp add: c1)
  have w3: "calibrate_loop W ct rep s2 (Some (p3, t3) # Some (p4, t4) # env) =
        calibrate_loop W ct rep s3 (Some (p4, t4) # env)"
    unfolding s3_def by (rule loop_one) (simp add: c2)
  have w4: "calibrate_loop W ct rep s3 (Some (p4, t4) # env) = calibrate_loop W ct rep s4 env"
    unfolding s4_def by (rule loop_one) (simp add: c3)
  have e: "s4 = after_four s p1 p2 p3 p4 t4"
    by (simp add: after_four_def s4_def s3_def s2_def s1_def accumulate_def assms)
  show ?thesis unfolding w1 w2 w3 w4 e ..
qed

lemma replicate_four: "replicate (4 + k) x = x # x # x # x # replicate k x"
  by (simp add: numeral_eq_Suc)

lemma endstop_example_facts:
  "\<exists>s'. endstop_example n = (Polling, s') \<and> printer_log s' = [] \<and> calibration_moves s' = n \<and>
        (0 < n \<longrightarrow> offsets s' = (- (55 / 1000), 0))"
proof -
  define tc where "tc = Some \<lparr>cX = 100, cY = 100, cZ = 10\<rparr>"
  define s0 where
    "s0 = calibrateTool_init (init_calib\<lparr>transform_matrix := Some example_transform\<rparr>)"
  define s4 where "s4 = after_four s0 (384, 240) (384, 240) (384, 240) (384, 240) tc"
  define env where "env = replicate (2 * n) (detection_at 384 240)"
  have i: "detect_count s0 = 0"
    by (simp add: s0_def calibrateTool_init_def)
  have d: "detection_at 384 240 = Some ((384, 240), tc)"
    by (simp add: detection_at_def tc_def)
  have r: "replicate (4 + 2 * n) (detection_at 384 240) =
      Some ((384, 240), tc) # Some ((384, 240), tc) # Some ((384, 240), tc) #
      Some ((384, 240), tc) # env"
    unfolding env_def replicate_four d ..
  have w: "calibrate_loop example_world Endstop 1 s0
        (replicate (4 + 2 * n) (detection_at 384 240)) =
      calibrate_loop example_world Endstop 1 s4 env"
    unfolding r s4_def by (rule warm_up_explicit [OF i])
  have s4: "state s4 = 200" "transform_matrix s4 = Some example_transform"
    "4 \<le> detect_count s4" "printer_log s4 = []" "calibration_moves s4 = 0"
    by (simp_all add: s4_def s0_def after_four_def calibrateTool_init_def init_calib_def
        example_transform_def len_transform_def)
  from endstop_loop [OF s4(1,2,3), of 1 n] obtain s' where
    e: "calibrate_loop example_world Endstop 1 s4 env = (Polling, s')"
      "printer_log s' = printer_log s4" "calibration_moves s' = calibration_moves s4 + n"
      "0 < n \<longrightarrow> offsets s' = (- (55 / 1000), 0)"
    unfolding env_def by blast
  have a: "endstop_example n = (Polling, s')"
    unfolding endstop_example_def calibrateTool_def s0_def [symmetric] w e(1) ..
  have b: "printer_log s' = []" by (simp only: e(2) s4(4))
  have c: "calibration_moves s' = n" by (simp only: e(3) s4(5) add_0)
  show ?thesis by (intro exI [of _ s'] conjI a b c e(4))
qed

text \<open>
  C3, the endstop case as the code runs it. The relative move of lines 1625 and 1626
  stands in the \<^verbatim>\<open>else\<close> of \<^verbatim>\<open>if str(ctool) in "endstop"\<close>, so an endstop run never
  reaches it. With the endstop seen 64 pixels to the right of the centre, the run is
  still polling after any number \<open>n\<close> of centering iterations: it has counted \<open>n\<close>
  iterations and sent nothing to the printer, although the offset it computes each
  time, \<open>(-0.055, 0)\<close>, is not within 0.05 of zero.
\<close>

theorem endstop_centering_sends_no_move:
  "fst (endstop_example n) = Polling \<and>
   calibration_moves (snd (endstop_example n)) = n \<and>
   printer_log (snd (endstop_example n)) = [] \<and>
   offsets (snd (endstop_example (Suc n))) = (- (55 / 1000), 0) \<and>
   \<not> (\<bar>- (55 / 1000) :: rat\<bar> < 5 / 100)"
proof -
  from endstop_example_facts [of n] obtain s' where
    a: "endstop_example n = (Polling, s')" "printer_log s' = []" "calibration_moves s' = n"
    by blast
  from endstop_example_facts [of "Suc n"] obtain s'' where
    b: "endstop_example (Suc n) = (Polling, s'')" "offsets s'' = (- (55 / 1000), 0)"
    by blast
  show ?thesis unfolding a(1) b(1) using a(2,3) b(2) by simp
qed

subsection \<open>C4: the position a centering step starts from\<close>

lemma tool_step_moves:
  assumes "state s = 200" "transform_matrix s = Some T" "4 \<le> detect_count s"
    "centering_offsets W T q = (ox, oy)" "ox \<noteq> 0 \<or> oy \<noteq> 0"
  shows "calibrate_loop W (Tool n) rep s (Some (p, tc) # Some (q, tc') # env) =
         calibrate_loop W (Tool n) rep (after_move (second_detection s p tc q tc') ox oy) env"
proof -
  let ?s2 = "second_detection s p tc q tc'"
  have t: "transform_matrix ?s2 = Some T" by (simp only: sd_simps assms(2))
  have o: "centering_offsets W T (xy ?s2) = (ox, oy)" by (simp only: sd_simps assms(4))
  have c: "centering W (Tool n) rep ?s2 = Continue (after_move ?s2 ox oy)"
    unfolding after_move_def by (rule centering_tool_moves [OF t o assms(5)])
  have p: "process W (Tool n) rep ?s2 = Continue (after_move ?s2 ox oy)"
    using c by (simp add: process_200 sd_simps assms(1))
  show ?thesis unfolding loop_two [OF assms(3)] p by simp
qed

lemma average_example_run:
  "calibrateTool example_world (Tool 0) 0 average_start
       (detection_at 320 240 # detection_at 320 240 # detection_at 320 240 #
        detection_at 320 240 # detection_at 320 240 # detection_at 384 240 # env) =
      calibrate_loop example_world (Tool 0) 0 average_moved env"
  "state average_moved = 200" "transform_matrix average_moved = Some example_transform"
  "mpp average_moved = Some ((320, 240), (330, 240))" "4 \<le> detect_count average_moved"
  "average_location average_moved = (320, 240)" "offsets average_moved = (- (55 / 1000), 0)"
  "printer_log average_moved = [LimitAxes, MoveRelative 1000 (- (55 / 1000)) 0]"
proof -
  define tc where "tc = Some \<lparr>cX = 100, cY = 100, cZ = 10\<rparr>"
  define s6 where "s6 = average_moved"
  define s0 where "s0 = calibrateTool_init average_start"
  define s4 where "s4 = after_four s0 (320, 240) (320, 240) (320, 240) (320, 240) tc"
  have i: "detect_count s0 = 0" by (simp add: s0_def calibrateTool_init_def)
  have d: "detection_at 320 240 = Some ((320, 240), tc)"
    "detection_at 384 240 = Some ((384, 240), tc)"
    by (simp_all add: detection_at_def tc_def)
  have s4: "state s4 = 200" "transform_matrix s4 = Some example_transform"
    "4 \<le> detect_count s4" "printer_log s4 = []" "detect_count s4 = 4"
    "average_location s4 = (1280, 960)" "mpp s4 = Some ((320, 240), (330, 240))"
    by (simp_all add: s4_def s0_def after_four_def calibrateTool_init_def average_start_def
        init_calib_def example_transform_def len_transform_def)
  have w: "calibrate_loop example_world (Tool 0) 0 s0
       (Some ((320, 240), tc) # Some ((320, 240), tc) # Some ((320, 240), tc) #
        Some ((320, 240), tc) # Some ((320, 240), tc) # Some ((384, 240), tc) # env) =
      calibrate_loop example_world (Tool 0) 0 s4
        (Some ((320, 240), tc) # Some ((384, 240), tc) # env)"
    unfolding s4_def by (rule warm_up_explicit [OF i])
  have z: "- (55 / 1000) \<noteq> (0::rat) \<or> (0::rat) \<noteq> 0" by simp
  have m: "calibrate_loop example_world (Tool 0) 0 s4
        (Some ((320, 240), tc) # Some ((384, 240), tc) # env) =
      calibrate_loop example_world (Tool 0) 0 s6 env"
    unfolding s6_def average_moved_def tc_def [symmetric] s0_def [symmetric] s4_def [symmetric]
    by (rule tool_step_moves [OF s4(1,2,3) offsets_right_of_centre z])
  show "calibrateTool example_world (Tool 0) 0 average_start
       (detection_at 320 240 # detection_at 320 240 # detection_at 320 240 #
        detection_at 320 240 # detection_at 320 240 # detection_at 384 240 # env) =
      calibrate_loop example_world (Tool 0) 0 average_moved env"
    unfolding calibrateTool_def s0_def [symmetric] d w m s6_def ..
  have e: "s6 = after_move (second_detection s4 (320, 240) tc (384, 240) tc) (- (55 / 1000)) 0"
    unfolding s6_def average_moved_def s4_def s0_def tc_def ..
  show "state average_moved = 200" by (simp add: e [unfolded s6_def] after_move_def)
  show "transform_matrix average_moved = Some example_transform"
    by (simp add: e [unfolded s6_def] after_move_def sd_simps s4)
  show "mpp average_moved = Some ((320, 240), (330, 240))" by (simp add: e [unfolded s6_def] after_move_def sd_simps s4)
  show "4 \<le> detect_count average_moved" by (simp add: e [unfolded s6_def] after_move_def sd_simps s4)
  show "average_location average_moved = (320, 240)"
    by (simp add: e [unfolded s6_def] after_move_def sd_simps s4 around_def rint_def)
  show "offsets average_moved = (- (55 / 1000), 0)" by (simp add: e [unfolded s6_def] after_move_def)
  show "printer_log average_moved = [LimitAxes, MoveRelative 1000 (- (55 / 1000)) 0]"
    by (simp add: e [unfolded s6_def] after_move_def sd_simps s4)
qed

text \<open>
  C4, as the code runs it. After five detections at the centre of the frame the average
  that \<^verbatim>\<open>calibrateTool\<close> has computed is the centre, whose offset is \<open>(0, 0)\<close>; the move it
  sends is the offset of the sixth detection alone, \<open>(-0.055, 0)\<close>. The next centering
  step follows after two more detections (the counter is not reset), again with the
  offset of the last one.
\<close>

theorem centering_uses_last_detection:
  "fst average_example = Polling \<and>
   average_location (snd average_example) = (320, 240) \<and>
   centering_offsets example_world example_transform (320, 240) = (0, 0) \<and>
   offsets (snd average_example) = (- (55 / 1000), 0) \<and>
   printer_log (snd average_example) = [LimitAxes, MoveRelative 1000 (- (55 / 1000)) 0] \<and>
   (\<exists>r. fst average_example_next = Returned r) \<and>
   printer_log (snd average_example_next) =
     [LimitAxes, MoveRelative 1000 (- (55 / 1000)) 0,
      LimitAxes, MoveRelative 1000 0 0, MoveAbsolute 13200 None None None,
      GetToolOffset 0, MoveAbsolute 13200 None None None]"
proof -
  have a: "average_example = (Polling, average_moved)"
    unfolding average_example_def by (simp only: average_example_run(1) calibrate_loop.simps(1))
  have n: "average_example_next =
      calibrate_loop example_world (Tool 0) 0 average_moved
        [Some ((448, 240), Some \<lparr>cX = 100, cY = 100, cZ = 10\<rparr>),
         Some ((320, 240), Some \<lparr>cX = 100, cY = 100, cZ = 10\<rparr>)]"
    unfolding average_example_next_def
    by (simp only: average_example_run(1)) (simp only: detection_at_def)
  from finishes_at_centre [OF average_example_run(2,3,4,5) centre_normalized,
      of 0 0 "(448, 240)" "Some \<lparr>cX = 100, cY = 100, cZ = 10\<rparr>"
        "\<lparr>cX = 100, cY = 100, cZ = 10\<rparr>" "[]"]
  obtain x s' where
    f: "average_example_next =
        (Returned (Some (x, example_transform, ((320, 240), (330, 240)))), s')"
      "printer_log s' = printer_log average_moved @ centred_log 0"
    unfolding n by blast
  have c1: "fst average_example = Polling" by (simp only: a fst_conv)
  have c2: "average_location (snd average_example) = (320, 240)"
    by (simp only: a snd_conv average_example_run(6))
  have c3: "centering_offsets example_world example_transform (320, 240) = (0, 0)"
    by (rule offsets_at_centre [OF centre_normalized])
  have c4: "offsets (snd average_example) = (- (55 / 1000), 0)"
    by (simp only: a snd_conv average_example_run(7))
  have c5: "printer_log (snd average_example) = [LimitAxes, MoveRelative 1000 (- (55 / 1000)) 0]"
    by (simp only: a snd_conv average_example_run(8))
  have c6: "\<exists>r. fst average_example_next = Returned r"
    by (simp only: f(1) fst_conv) blast
  have c7: "printer_log (snd average_example_next) =
     [LimitAxes, MoveRelative 1000 (- (55 / 1000)) 0,
      LimitAxes, MoveRelative 1000 0 0, MoveAbsolute 13200 None None None,
      GetToolOffset 0, MoveAbsolute 13200 None None None]"
    by (simp only: f(1) snd_conv f(2) average_example_run(8) centred_log_def append.simps)
  show ?thesis by (intro conjI c1 c2 c3 c4 c5 c6 c7)
qed

subsection \<open>C6: what \<^verbatim>\<open>analyzeFrame\<close> returns and emits\<close>

lemma process_frame_r:
  "process_frame s e = Next s1 \<Longrightarrow> f_r s1 = f_r s"
  by (auto simp: process_frame_def emit_def Let_def split: if_splits)

lemma process_frame_break:
  "process_frame s e = Break s1 \<Longrightarrow>
   length (keypoints e) = 1 \<and> f_xy s1 = uint16_pt (kp_pt (keypoints e ! 0)) \<and>
   f_r s1 = Some (of_int (rint (kp_size (keypoints e ! 0) / 2))) \<and>
   f_toolCoordinates s1 = Some (coordinates e)"
  by (cases "keypoints e") (auto simp: process_frame_def emit_def Let_def split: if_splits)

lemma left_found:
  assumes "analyze_loop s events = Left s1 e" "f_r s = None" "f_r s1 = Some r"
  shows "e \<in> set events \<and> length (keypoints e) = 1 \<and>
         f_xy s1 = uint16_pt (kp_pt (keypoints e ! 0)) \<and>
         f_toolCoordinates s1 = Some (coordinates e) \<and>
         r = of_int (rint (kp_size (keypoints e ! 0) / 2))"
  using assms
proof (induction events arbitrary: s)
  case Nil
  then show ?case by simp
next
  case (Cons a es)
  show ?case
  proof (cases "detection_on a")
    case False
    with Cons.prems show ?thesis by simp
  next
    case on: True
    show ?thesis
    proof (cases "ret a")
      case False
      with on Cons.prems have "analyze_loop s es = Left s1 e" by simp
      from Cons.IH [OF this Cons.prems(2,3)] show ?thesis by simp
    next
      case True
      show ?thesis
      proof (cases "process_frame s a")
        case (Next s2)
        with on True Cons.prems have l: "analyze_loop s2 es = Left s1 e" by simp
        from process_frame_r [OF Next] Cons.prems(2) have "f_r s2 = None" by simp
        from Cons.IH [OF l this Cons.prems(3)] show ?thesis by simp
      next
        case (Break s2)
        with on True Cons.prems have "s1 = s2" "e = a" by simp_all
        with process_frame_break [OF Break] Cons.prems(3) show ?thesis by simp
      qed
    qed
  qed
qed

lemma return_found:
  "analyzeFrame_return flag s = Returned (Some (p, t, tc, r)) \<Longrightarrow>
   flag \<and> f_xy s = p \<and> f_toolCoordinates s = Some tc \<and> f_r s = Some r"
  by (auto simp: analyzeFrame_return_def split: if_splits option.splits)

lemma analyzeFrame_found:
  assumes "fst (analyzeFrame now events) = Returned (Some (p, t, tc, r))"
  shows "\<exists>e\<in>set events. length (keypoints e) = 1 \<and> detection_on_after e \<and>
           p = uint16_pt (kp_pt (keypoints e ! 0)) \<and> tc = coordinates e \<and>
           r = of_int (rint (kp_size (keypoints e ! 0) / 2))"
proof (cases "analyze_loop (init_frame_state now) events")
  case (Waiting s)
  with assms show ?thesis by (simp add: analyzeFrame_def)
next
  case (Left s e)
  with assms have "analyzeFrame_return (detection_on_after e) s = Returned (Some (p, t, tc, r))"
    by (simp add: analyzeFrame_def)
  from return_found [OF this]
  have f: "detection_on_after e" "f_xy s = p" "f_toolCoordinates s = Some tc" "f_r s = Some r"
    by simp_all
  have "f_r (init_frame_state now) = None" by (simp add: init_frame_state_def)
  from left_found [OF Left this f(4)] f(1,2,3) show ?thesis by auto
qed

lemma skipped_frame:
  assumes "detection_on e" "ret e" "length (keypoints e) \<noteq> 1"
  shows "\<exists>s2. process_frame s e = Next s2 \<and> analyze_loop s (e # es) = analyze_loop s2 es \<and>
           signals s2 = signals s @ skipped_signals s e"
  using assms
  by (cases "keypoints e")
    (auto simp: process_frame_def emit_def Let_def skipped_signals_def)

text \<open>
  C6, as amended. A call of \<^verbatim>\<open>analyzeFrame\<close> returns a tuple only from a pass whose
  frame showed exactly one circle, and the tuple holds that circle's rounded position
  and radius and the coordinates read in that pass. A pass that reads a frame with no
  circle or with several returns nothing and the loop goes on; what it emits after the
  frame itself is: \<^verbatim>\<open>'Error in detecting nozzle.'\<close> if more than 25 frames without a
  circle have been counted; otherwise, if more than 25 ms have passed since the call
  started, the status of its case (no circles, or too many circles) and the crosshair
  switched off; otherwise nothing.
\<close>

theorem analyzeFrame_found_only_for_one_circle:
  "(fst (analyzeFrame now events) = Returned (Some (p, t, tc, r)) \<longrightarrow>
      (\<exists>e\<in>set events. length (keypoints e) = 1 \<and> detection_on_after e \<and>
          p = uint16_pt (kp_pt (keypoints e ! 0)) \<and> tc = coordinates e \<and>
          r = of_int (rint (kp_size (keypoints e ! 0) / 2)))) \<and>
   (detection_on e \<and> ret e \<and> length (keypoints e) \<noteq> 1 \<longrightarrow>
      (\<exists>s2. process_frame s e = Next s2 \<and> analyze_loop s (e # es) = analyze_loop s2 es \<and>
          signals s2 = signals s @ skipped_signals s e))"
  using analyzeFrame_found [of now events p t tc r] skipped_frame [of e s es]
  by (intro conjI impI) simp_all

text \<open>The theorem at a call that reads a frame with two circles and then one with one.\<close>

lemma example_found:
  "fst (analyzeFrame 0 [two_circles, one_circle]) =
     Returned (Some ((320, 240), (320, 240), Some \<lparr>cX = 100, cY = 100, cZ = 10\<rparr>, 12))"
  by (simp add: analyzeFrame_def init_frame_state_def two_circles_def one_circle_def
      process_frame_def emit_def analyzeFrame_return_def uint16_pt_def rint_def Let_def)

theorem analyzeFrame_found_only_for_one_circle_witness:
  "fst (analyzeFrame 0 [two_circles, one_circle]) =
     Returned (Some ((320, 240), (320, 240), Some \<lparr>cX = 100, cY = 100, cZ = 10\<rparr>, 12)) \<and>
   (\<exists>e\<in>set [two_circles, one_circle]. length (keypoints e) = 1 \<and> detection_on_after e \<and>
      (320, 240) = uint16_pt (kp_pt (keypoints e ! 0))) \<and>
   detection_on two_circles \<and> ret two_circles \<and> length (keypoints two_circles) \<noteq> 1 \<and>
   (\<exists>s2. process_frame (init_frame_state 0) two_circles = Next s2 \<and>
      analyze_loop (init_frame_state 0) [two_circles, one_circle] = analyze_loop s2 [one_circle] \<and>
      signals s2 = [ChangePixmap])"
proof -
  have h: "detection_on two_circles \<and> ret two_circles \<and> length (keypoints two_circles) \<noteq> 1"
    by (simp add: two_circles_def)
  have k: "skipped_signals (init_frame_state 0) two_circles = [ChangePixmap]"
    by (simp add: skipped_signals_def init_frame_state_def two_circles_def)
  have i: "signals (init_frame_state 0) = []" by (simp add: init_frame_state_def)
  from analyzeFrame_found_only_for_one_circle [of 0 "[two_circles, one_circle]" "(320, 240)"
      "(320, 240)" "Some \<lparr>cX = 100, cY = 100, cZ = 10\<rparr>" 12 two_circles
      "init_frame_state 0" "[one_circle]"]
    example_found h
  show ?thesis unfolding k i by (simp del: analyze_loop.simps)
qed

text \<open>
  The claim as stated fails for a frame with two circles read 10 ms after the call
  started: the call keeps polling and has emitted the frame, but no status.
\<close>

theorem too_many_without_status_counterexample:
  "length (keypoints two_circles) = 2 \<and>
   fst (analyzeFrame 0 [two_circles]) = Polling \<and>
   signals (snd (analyzeFrame 0 [two_circles])) = [ChangePixmap]"
  by (simp add: analyzeFrame_def init_frame_state_def two_circles_def
      process_frame_def emit_def Let_def)

subsection \<open>C10: the flag switched off\<close>

text \<open>
  C10. If \<^verbatim>\<open>self.detection_on\<close> is false in the test after the loop, \<^verbatim>\<open>analyzeFrame\<close>
  returns \<open>None\<close>; and a run of \<^verbatim>\<open>calibrateTool\<close> for a tool that receives this value,
  at its first call of \<^verbatim>\<open>analyzeFrame\<close> in an iteration or at the second one, raises
  \<^verbatim>\<open>TypeError\<close> when it unpacks it.
\<close>

theorem analyzeFrame_None_when_flag_off:
  assumes "analyze_loop (init_frame_state now) events = Left s e"
    and "\<not> detection_on_after e"
  shows "analyzeFrame now events = (Returned None, s) \<and>
         (\<forall>r. fst (analyzeFrame now events) = Returned r \<longrightarrow>
            calibrateTool W (Tool n) rep c (analysis_of r # env) =
              (Raised TypeError, calibrateTool_init c) \<and>
            (4 \<le> detect_count c' \<longrightarrow>
               calibrate_loop W (Tool n) rep c' (Some (q, tc) # analysis_of r # env) =
                 (Raised TypeError, average (accumulate (c'\<lparr>xy := q, tool_coordinates := tc\<rparr>)))))"
proof -
  have a: "analyzeFrame now events = (Returned None, s)"
    using assms by (simp add: analyzeFrame_def analyzeFrame_return_def)
  have b: "calibrateTool W (Tool n) rep c (analysis_of None # env) =
      (Raised TypeError, calibrateTool_init c)"
    by (simp add: calibrateTool_def analysis_of_def unpack_def)
  have d: "4 \<le> detect_count c' \<longrightarrow>
      calibrate_loop W (Tool n) rep c' (Some (q, tc) # analysis_of None # env) =
        (Raised TypeError, average (accumulate (c'\<lparr>xy := q, tool_coordinates := tc\<rparr>)))"
    by (simp add: analysis_of_def unpack_def accumulate_def position_iterations_def)
  show ?thesis unfolding a using b d by simp
qed

text \<open>
  The theorem at a call that reads a frame with two circles and then finds the flag off.
\<close>

theorem analyzeFrame_None_when_flag_off_witness:
  "analyze_loop (init_frame_state 0) [two_circles, switched_off] =
     Left \<lparr> f_xy = (0, 0), f_target = Some (320, 240),
            f_toolCoordinates = Some (Some \<lparr>cX = 100, cY = 100, cZ = 10\<rparr>), f_r = None,
            nocircle = 0, rd = 0, signals = [ChangePixmap] \<rparr> switched_off \<and>
   \<not> detection_on_after switched_off \<and>
   fst (analyzeFrame 0 [two_circles, switched_off]) = Returned None \<and>
   calibrateTool example_world (Tool 0) 0 init_calib
     (analysis_of None # [detection_at 320 240]) = (Raised TypeError, calibrateTool_init init_calib)"
proof -
  have l: "analyze_loop (init_frame_state 0) [two_circles, switched_off] =
     Left \<lparr> f_xy = (0, 0), f_target = Some (320, 240),
            f_toolCoordinates = Some (Some \<lparr>cX = 100, cY = 100, cZ = 10\<rparr>), f_r = None,
            nocircle = 0, rd = 0, signals = [ChangePixmap] \<rparr> switched_off"
    by (simp add: init_frame_state_def two_circles_def switched_off_def process_frame_def
        emit_def rint_def Let_def)
  have f: "\<not> detection_on_after switched_off" by (simp add: switched_off_def)
  from analyzeFrame_None_when_flag_off [OF l f, of example_world 0 0 init_calib
      "[detection_at 320 240]" init_calib "(0, 0)" None]
  have "analyzeFrame 0 [two_circles, switched_off] = (Returned None,
      \<lparr> f_xy = (0, 0), f_target = Some (320, 240),
        f_toolCoordinates = Some (Some \<lparr>cX = 100, cY = 100, cZ = 10\<rparr>), f_r = None,
        nocircle = 0, rd = 0, signals = [ChangePixmap] \<rparr>)"
    and "calibrateTool example_world (Tool 0) 0 init_calib
     (analysis_of None # [detection_at 320 240]) = (Raised TypeError, calibrateTool_init init_calib)"
    by simp_all
  with l f show ?thesis by simp
qed

subsection \<open>C5: when the status of the printer is read\<close>

lemma step_ok_calib_of: "step_ok P (\<lambda>r. True) r = P (calib_of r)"
  by (cases r) (simp_all add: step_ok_def calib_of_def)

lemma quiet_same: "printer_log s1 = printer_log s \<Longrightarrow> quiet base s \<Longrightarrow> quiet base s1"
  by (simp add: quiet_def)

lemma quiet_more:
  "printer_log s1 = printer_log s @ cmds \<Longrightarrow> list_all (\<lambda>c. \<not> is_status c) cmds \<Longrightarrow>
   quiet base s \<Longrightarrow> quiet base s1"
  by (auto simp: quiet_def)

lemma process_log:
  "\<exists>cmds. printer_log (calib_of (process W ct rep s)) = printer_log s @ cmds \<and>
         list_all (\<lambda>c. \<not> is_status c) cmds"
  by (auto simp: process_def cam_calib_init_def cam_calib_step_def cam_calib_finalize_def
      centering_def converged_def save_sample_def send_def calib_of_def Let_def
      split: option.splits ctool.splits)

lemma quiet_calibrateTool: "quiet (printer_log s) (snd (calibrateTool W ct rep s env))"
proof -
  have 0: "quiet (printer_log s) (calibrateTool_init s)"
    by (simp add: quiet_def calibrateTool_init_def)
  have u: "\<And>a x x1. unpack a x = Inr x1 \<Longrightarrow> quiet (printer_log s) x \<Longrightarrow> quiet (printer_log s) x1"
    by (auto simp: unpack_def quiet_def split: option.splits)
  have ac: "\<And>x. quiet (printer_log s) x \<Longrightarrow> quiet (printer_log s) (accumulate x)"
    by (simp add: quiet_def accumulate_def)
  have av: "\<And>x. quiet (printer_log s) x \<Longrightarrow> quiet (printer_log s) (average x)"
    by (simp add: quiet_def average_def)
  have pr: "\<And>x. quiet (printer_log s) x \<Longrightarrow>
      step_ok (quiet (printer_log s)) (\<lambda>r. True) (process W ct rep x)"
    unfolding step_ok_calib_of using process_log quiet_more by blast
  from loop_preserves [where P = "quiet (printer_log s)" and R = "\<lambda>r. True" and W = W
      and ct = ct and rep = rep and s = "calibrateTool_init s" and env = env, OF u ac av pr 0]
  show ?thesis by (simp add: calibrateTool_def)
qed


lemma send_simps:
  "printer_log (send c s) = printer_log s @ [c]"
  "transform_matrix (send c s) = transform_matrix s"
  by (simp_all add: send_def)

lemma foldl_send: "printer_log (foldl (\<lambda>s c. send c s) s cs) = printer_log s @ cs"
  by (induction cs arbitrary: s) (simp_all add: send_def)

lemma foldl_send_transform:
  "transform_matrix (foldl (\<lambda>s c. send c s) s cs) = transform_matrix s"
  by (induction cs arbitrary: s) (simp_all add: send_def)

lemma wait_idle_log:
  "wait_idle s statuses = (s2, idle) \<Longrightarrow>
   \<exists>sts. printer_log s2 = printer_log s @ map GetStatus sts \<and>
         sts = take (length sts) statuses \<and>
         list_all (\<lambda>st. \<not> in_str st ''idle'') (butlast sts) \<and>
         (idle \<longrightarrow> sts \<noteq> [] \<and> in_str (last sts) ''idle'') \<and>
         transform_matrix s2 = transform_matrix s"
proof (induction statuses arbitrary: s)
  case Nil
  then have "printer_log s2 = printer_log s @ map GetStatus []" "\<not> idle"
    "transform_matrix s2 = transform_matrix s"
    by simp_all
  then show ?case by (intro exI [of _ "[]"]) simp
next
  case (Cons st sts)
  show ?case
  proof (cases "in_str st ''idle''")
    case True
    with Cons.prems have "s2 = send (GetStatus st) s" by (simp add: Let_def)
    then have "printer_log s2 = printer_log s @ map GetStatus [st]"
      "transform_matrix s2 = transform_matrix s"
      by (simp_all add: send_def)
    with True show ?thesis by (intro exI [of _ "[st]"]) simp
  next
    case False
    with Cons.prems have "wait_idle (send (GetStatus st) s) sts = (s2, idle)"
      by (simp add: Let_def)
    from Cons.IH [OF this] obtain sts' where
      i: "printer_log s2 = printer_log (send (GetStatus st) s) @ map GetStatus sts'"
        "sts' = take (length sts') sts"
        "list_all (\<lambda>st. \<not> in_str st ''idle'') (butlast sts')"
        "idle \<longrightarrow> sts' \<noteq> [] \<and> in_str (last sts') ''idle''"
        "transform_matrix s2 = transform_matrix (send (GetStatus st) s)"
      by blast
    have 1: "printer_log s2 = printer_log s @ map GetStatus (st # sts')"
      using i(1) by (simp add: send_def)
    have 2: "st # sts' = take (length (st # sts')) (st # sts)"
      using i(2) by simp
    have 3: "list_all (\<lambda>st. \<not> in_str st ''idle'') (butlast (st # sts'))"
      using i(3) False by simp
    have 4: "idle \<longrightarrow> st # sts' \<noteq> [] \<and> in_str (last (st # sts')) ''idle''"
      using i(4) by simp
    have 5: "transform_matrix s2 = transform_matrix s"
      using i(5) by (simp add: send_def)
    show ?thesis by (intro exI [of _ "st # sts'"] conjI 1 2 3 4 5)
  qed
qed

lemma apply_offsets_log:
  "\<exists>cmds. printer_log (snd (apply_offsets n (r, s3))) = printer_log s3 @ cmds \<and>
         list_all (\<lambda>c. \<not> is_status c) cmds"
  by (cases r) (auto simp: apply_offsets_def send_def split: option.splits)

lemma offsets_left_of_centre:
  "centering_offsets example_world example_transform (256, 240) = (55 / 1000, 0)"
  by (simp add: centering_offsets_def normalize_coords_def example_world_def
      example_transform_def transpose_matmul_def scale_rows_def around_def rint_def Let_def)

lemma two_moves:
  assumes "transform_matrix s = Some T"
    "centering_offsets W T q1 = (ox1, oy1)" "ox1 \<noteq> 0 \<or> oy1 \<noteq> 0"
    "centering_offsets W T q2 = (ox2, oy2)" "ox2 \<noteq> 0 \<or> oy2 \<noteq> 0"
  shows "\<exists>s'. calibrateTool W (Tool n) rep s
             [Some (p1, t1), Some (p2, t2), Some (p3, t3), Some (p4, t4), Some (p5, t5),
              Some (q1, t6), Some (p7, t7), Some (q2, t8)] = (Polling, s') \<and>
           printer_log s' = printer_log s @
             [LimitAxes, MoveRelative 1000 ox1 oy1, LimitAxes, MoveRelative 1000 ox2 oy2]"
proof -
  define s0 where "s0 = calibrateTool_init s"
  define s4 where "s4 = after_four s0 p1 p2 p3 p4 t4"
  define s6 where "s6 = after_move (second_detection s4 p5 t5 q1 t6) ox1 oy1"
  define s8 where "s8 = after_move (second_detection s6 p7 t7 q2 t8) ox2 oy2"
  have i: "detect_count s0 = 0" by (simp add: s0_def calibrateTool_init_def)
  have f0: "state s0 = 200" "transform_matrix s0 = Some T" "printer_log s0 = printer_log s"
    using assms(1) by (cases T; simp add: s0_def calibrateTool_init_def len_transform_def)+
  have f4: "state s4 = 200" "transform_matrix s4 = Some T" "4 \<le> detect_count s4"
    "printer_log s4 = printer_log s"
    using f0 by (simp_all add: s4_def after_four_def)
  have f6: "state s6 = 200" "transform_matrix s6 = Some T" "4 \<le> detect_count s6"
    "printer_log s6 = printer_log s @ [LimitAxes, MoveRelative 1000 ox1 oy1]"
    using f4 by (simp_all add: s6_def after_move_def sd_simps)
  have f8: "printer_log s8 = printer_log s @
      [LimitAxes, MoveRelative 1000 ox1 oy1, LimitAxes, MoveRelative 1000 ox2 oy2]"
    using f6 by (simp add: s8_def after_move_def sd_simps)
  have w1: "calibrate_loop W (Tool n) rep s0
       [Some (p1, t1), Some (p2, t2), Some (p3, t3), Some (p4, t4), Some (p5, t5),
        Some (q1, t6), Some (p7, t7), Some (q2, t8)] =
      calibrate_loop W (Tool n) rep s4
       [Some (p5, t5), Some (q1, t6), Some (p7, t7), Some (q2, t8)]"
    unfolding s4_def by (rule warm_up_explicit [OF i])
  have w2: "calibrate_loop W (Tool n) rep s4
       [Some (p5, t5), Some (q1, t6), Some (p7, t7), Some (q2, t8)] =
      calibrate_loop W (Tool n) rep s6 [Some (p7, t7), Some (q2, t8)]"
    unfolding s6_def by (rule tool_step_moves [OF f4(1,2,3) assms(2,3)])
  have w3: "calibrate_loop W (Tool n) rep s6 [Some (p7, t7), Some (q2, t8)] =
      calibrate_loop W (Tool n) rep s8 []"
    unfolding s8_def by (rule tool_step_moves [OF f6(1,2,3) assms(4,5)])
  have r: "calibrateTool W (Tool n) rep s
       [Some (p1, t1), Some (p2, t2), Some (p3, t3), Some (p4, t4), Some (p5, t5),
        Some (q1, t6), Some (p7, t7), Some (q2, t8)] = (Polling, s8)"
    unfolding calibrateTool_def s0_def [symmetric] w1 w2 w3 by (simp only: calibrate_loop.simps(1))
  show ?thesis by (intro exI [of _ s8] conjI r f8)
qed

lemma idle_example_facts:
  "fst idle_example = Polling"
  "printer_log (snd idle_example) =
     [GetJSON, LoadTool 0, MoveAbsolute 6000 (Some 100) None None,
      MoveAbsolute 6000 None (Some 100) None, MoveAbsolute 6000 None None (Some 10),
      GetStatus ''busy'', GetStatus ''idle'',
      LimitAxes, MoveRelative 1000 (- (55 / 1000)) 0,
      LimitAxes, MoveRelative 1000 (55 / 1000) 0]"
proof -
  define tc where "tc = Some \<lparr>cX = 100, cY = 100, cZ = 10\<rparr>"
  define s1 where "s1 = foldl (\<lambda>s c. send c s) average_start (approach example_world 0)"
  define s2 where "s2 = send (GetStatus ''idle'') (send (GetStatus ''busy'') s1)"
  have w: "wait_idle s1 [''busy'', ''idle''] = (s2, True)"
    by (simp add: s2_def Let_def)
  have t: "transform_matrix s2 = Some example_transform"
    by (simp add: s2_def s1_def send_simps foldl_send_transform average_start_def)
  have l: "printer_log s2 =
     [GetJSON, LoadTool 0, MoveAbsolute 6000 (Some 100) None None,
      MoveAbsolute 6000 None (Some 100) None, MoveAbsolute 6000 None None (Some 10),
      GetStatus ''busy'', GetStatus ''idle'']"
    by (simp add: s2_def s1_def send_simps foldl_send average_start_def init_calib_def
        approach_def moveSpeed_def example_world_def)
  have z1: "- (55 / 1000) \<noteq> (0::rat) \<or> (0::rat) \<noteq> 0" by simp
  have z2: "55 / 1000 \<noteq> (0::rat) \<or> (0::rat) \<noteq> 0" by simp
  have d: "detection_at 320 240 = Some ((320, 240), tc)"
    "detection_at 384 240 = Some ((384, 240), tc)"
    "detection_at 256 240 = Some ((256, 240), tc)"
    by (simp_all add: detection_at_def tc_def)
  from two_moves [OF t offsets_right_of_centre z1 offsets_left_of_centre z2,
      of 0 0 "(320, 240)" tc "(320, 240)" tc "(320, 240)" tc "(320, 240)" tc "(320, 240)" tc
        tc "(320, 240)" tc tc]
  obtain s' where
    c: "calibrateTool example_world (Tool 0) 0 s2
          [detection_at 320 240, detection_at 320 240, detection_at 320 240,
           detection_at 320 240, detection_at 320 240, detection_at 384 240,
           detection_at 320 240, detection_at 256 240] = (Polling, s')"
      "printer_log s' = printer_log s2 @
         [LimitAxes, MoveRelative 1000 (- (55 / 1000)) 0,
          LimitAxes, MoveRelative 1000 (55 / 1000) 0]"
    unfolding d by blast
  have r: "idle_example = (Polling, s')"
    unfolding idle_example_def run_tool_def s1_def [symmetric]
    by (simp only: Let_def w fst_conv snd_conv c(1) apply_offsets_def
        simp_thms if_False prod.case outcome.case)
  show "fst idle_example = Polling" by (simp only: r fst_conv)
  show "printer_log (snd idle_example) =
     [GetJSON, LoadTool 0, MoveAbsolute 6000 (Some 100) None None,
      MoveAbsolute 6000 None (Some 100) None, MoveAbsolute 6000 None None (Some 10),
      GetStatus ''busy'', GetStatus ''idle'',
      LimitAxes, MoveRelative 1000 (- (55 / 1000)) 0,
      LimitAxes, MoveRelative 1000 (55 / 1000) 0]"
    by (simp only: r snd_conv c(2) l append.simps)
qed

text \<open>
  C5, as amended. In one pass of the tool loop of \<^verbatim>\<open>run\<close> the printer's status is read
  only between the approach to the control point and the call of \<^verbatim>\<open>calibrateTool\<close>: the
  calls sent are the approach, then the status queries, of which all but the last were
  answered not idle, then calls that hold no status query; and if any call follows the
  queries, the last query was answered idle. So every centering move comes after the
  one observation of idle that precedes \<^verbatim>\<open>calibrateTool\<close>, and no status is read between
  one centering move and the next.
\<close>

theorem idle_observed_before_calibrateTool:
  assumes "run_tool W n rep s statuses env = (out, s')"
  shows "\<exists>sts cmds. printer_log s' = printer_log s @ approach W n @ map GetStatus sts @ cmds \<and>
           sts = take (length sts) statuses \<and>
           list_all (\<lambda>st. \<not> in_str st ''idle'') (butlast sts) \<and>
           list_all (\<lambda>c. \<not> is_status c) cmds \<and>
           (cmds \<noteq> [] \<longrightarrow> sts \<noteq> [] \<and> in_str (last sts) ''idle'')"
proof -
  define s1 where "s1 = foldl (\<lambda>s c. send c s) s (approach W n)"
  obtain s2 idle where w: "wait_idle s1 statuses = (s2, idle)" by (cases "wait_idle s1 statuses")
  from wait_idle_log [OF w] obtain sts where
    i: "printer_log s2 = printer_log s1 @ map GetStatus sts"
      "sts = take (length sts) statuses"
      "list_all (\<lambda>st. \<not> in_str st ''idle'') (butlast sts)"
      "idle \<longrightarrow> sts \<noteq> [] \<and> in_str (last sts) ''idle''"
    by blast
  have l1: "printer_log s1 = printer_log s @ approach W n"
    by (simp add: s1_def foldl_send)
  show ?thesis
  proof (cases idle)
    case False
    with assms w have "s' = s2" by (simp add: run_tool_def s1_def [symmetric] Let_def)
    then have "printer_log s' = printer_log s @ approach W n @ map GetStatus sts @ []"
      using i(1) l1 by simp
    with i(2,3) show ?thesis by (intro exI [of _ sts] exI [of _ "[]"]) simp
  next
    case True
    obtain r s3 where c: "calibrateTool W (Tool n) rep s2 env = (r, s3)"
      by (cases "calibrateTool W (Tool n) rep s2 env")
    from quiet_calibrateTool [of s2 W "Tool n" rep env] c obtain cmds0 where
      q: "printer_log s3 = printer_log s2 @ cmds0" "list_all (\<lambda>c. \<not> is_status c) cmds0"
      by (auto simp: quiet_def)
    from apply_offsets_log [of n r s3] obtain cmds1 where
      a: "printer_log (snd (apply_offsets n (r, s3))) = printer_log s3 @ cmds1"
        "list_all (\<lambda>c. \<not> is_status c) cmds1"
      by blast
    from assms w True c have "s' = snd (apply_offsets n (r, s3))"
      by (simp add: run_tool_def s1_def [symmetric] Let_def)
    then have 1: "printer_log s' =
        printer_log s @ approach W n @ map GetStatus sts @ (cmds0 @ cmds1)"
      using a(1) q(1) i(1) l1 by simp
    have 2: "list_all (\<lambda>c. \<not> is_status c) (cmds0 @ cmds1)" using q(2) a(2) by simp
    have 3: "cmds0 @ cmds1 \<noteq> [] \<longrightarrow> sts \<noteq> [] \<and> in_str (last sts) ''idle''"
      using i(4) True by simp
    show ?thesis by (intro exI [of _ sts] exI [of _ "cmds0 @ cmds1"] conjI 1 i(2) i(3) 2 3)
  qed
qed


text \<open>The theorem at the example run.\<close>

theorem idle_observed_before_calibrateTool_witness:
  "run_tool example_world 0 0 average_start [''busy'', ''idle'']
       [detection_at 320 240, detection_at 320 240, detection_at 320 240,
        detection_at 320 240, detection_at 320 240, detection_at 384 240,
        detection_at 320 240, detection_at 256 240] = (fst idle_example, snd idle_example) \<and>
   (\<exists>sts cmds. printer_log (snd idle_example) =
       printer_log average_start @ approach example_world 0 @ map GetStatus sts @ cmds \<and>
       sts = take (length sts) [''busy'', ''idle''] \<and>
       list_all (\<lambda>st. \<not> in_str st ''idle'') (butlast sts) \<and>
       list_all (\<lambda>c. \<not> is_status c) cmds \<and>
       (cmds \<noteq> [] \<longrightarrow> sts \<noteq> [] \<and> in_str (last sts) ''idle''))"
proof -
  have e: "run_tool example_world 0 0 average_start [''busy'', ''idle'']
       [detection_at 320 240, detection_at 320 240, detection_at 320 240,
        detection_at 320 240, detection_at 320 240, detection_at 384 240,
        detection_at 320 240, detection_at 256 240] = (fst idle_example, snd idle_example)"
    by (simp add: idle_example_def)
  note x = idle_observed_before_calibrateTool [OF e]
  show ?thesis by (rule conjI [OF e x])
qed

text \<open>
  The claim as stated fails on the example run: after the first centering move the
  second one is sent with no status read in between.
\<close>

theorem second_move_without_idle_counterexample:
  "fst idle_example = Polling \<and>
   printer_log (snd idle_example) =
     [GetJSON, LoadTool 0, MoveAbsolute 6000 (Some 100) None None,
      MoveAbsolute 6000 None (Some 100) None, MoveAbsolute 6000 None None (Some 10),
      GetStatus ''busy'', GetStatus ''idle'',
      LimitAxes, MoveRelative 1000 (- (55 / 1000)) 0,
      LimitAxes, MoveRelative 1000 (55 / 1000) 0] \<and>
   idle_before_moves False (butlast (butlast (printer_log (snd idle_example)))) \<and>
   \<not> idle_before_moves False (printer_log (snd idle_example))"
  unfolding idle_example_facts by simp


subsection \<open>C8: the export\<close>

text \<open>
  C8, as the code runs it. \<^verbatim>\<open>datetime.now()\<close> is called on the module and raises, so
  the export leaves the list of results and the files as they were, whatever the session
  and whatever \<^verbatim>\<open>json.dump\<close> would do: no marker is appended and \<^verbatim>\<open>output.json\<close> is not
  written. For the session with one result there is no file to read back, and the
  status bar shows the error.
\<close>

theorem export_writes_nothing:
  "files (analyzeResults_export dump stamp a) = files a \<and>
   calibrationResults (analyzeResults_export dump stamp a) = calibrationResults a \<and>
   length (calibrationResults export_example) = 1 \<and>
   files (analyzeResults_export dump stamp export_example) ''output.json'' = None \<and>
   statusBar (analyzeResults_export dump stamp export_example) =
     [''Error exporting data, please check terminal for details.'']"
  by (simp add: analyzeResults_export_def datetime_name_def updateStatusbar_def
      export_example_def addCalibrationResult_def)

end
